theory Spec2Isabelle
  imports Complex_Main
begin

section \<open>Values read from the two JSON documents\<close>

text \<open>
  \<^verbatim>\<open>json.load\<close> turns a document into Python values: \<^verbatim>\<open>None\<close>, \<^verbatim>\<open>bool\<close>,
  \<^verbatim>\<open>int\<close> (unbounded), \<^verbatim>\<open>float\<close>, \<^verbatim>\<open>str\<close>, \<^verbatim>\<open>list\<close> and \<^verbatim>\<open>dict\<close>
  with string keys. The type \<open>'f\<close> stands for Python's \<^verbatim>\<open>float\<close>. A string is the list of
  its bytes in UTF-8; a lone surrogate, which \<^verbatim>\<open>json.load\<close> accepts as an escape such as
  \<^verbatim>\<open>"\ud800"\<close>, stands as the three bytes of its generalized encoding (\<^verbatim>\<open>ED A0 80\<close>).
\<close>

datatype 'f json =
    JNull
  | JBool bool
  | JInt int
  | JFloat 'f
  | JStr string
  | JList "'f json list"
  | JDict "(string \<times> 'f json) list"

text \<open>
  The loader's result is annotated \<^verbatim>\<open>List[Dict]\<close>: a product and a sale record are
  dictionaries from field names to arbitrary values. A dictionary that comes from a JSON object
  is kept as a list of bindings, read with \<open>map_of\<close> (the first binding of a key is its value).
\<close>

type_synonym 'f pydict = "(string \<times> 'f json) list"

text \<open>
  The exceptions the modelled statements can raise. A \<^verbatim>\<open>ValueError\<close> carries its message,
  which the handler of \<^verbatim>\<open>validate_sale_item\<close> puts into its result.
\<close>

datatype exn = TypeError | KeyError | OverflowError | ValueError string | UnicodeEncodeError

subsection \<open>The interpreter and its console, taken as a parameter\<close>

text \<open>
  The arithmetic, the comparisons and the formatting of \<^verbatim>\<open>float\<close> belong to the
  interpreter, and the encoding of the console to the environment, not to the program. They are
  a parameter of every definition below:
  \<^item> \<open>fl_zero\<close> is the literal \<^verbatim>\<open>0.0\<close>;
  \<^item> \<open>fl_of_int i\<close> is the conversion of an \<^verbatim>\<open>int\<close> operand of a mixed operation,
    \<open>None\<close> when it raises \<^verbatim>\<open>OverflowError\<close> (int too large to convert to float);
  \<^item> \<open>fl_add\<close>, \<open>fl_mul\<close> are \<^verbatim>\<open>+\<close> and \<^verbatim>\<open>*\<close> on two floats (they never raise);
  \<^item> \<open>fl_lt_zero x\<close> is \<^verbatim>\<open>x < 0\<close>;
  \<^item> \<open>fl_eq x y\<close> is the test a dictionary applies to two float keys (the same object,
    or \<^verbatim>\<open>x == y\<close>); \<open>fl_eq_int x i\<close> is \<^verbatim>\<open>x == i\<close> for an int \<open>i\<close>;
  \<^item> \<open>fl_format spec x\<close> is \<^verbatim>\<open>format(x, spec)\<close>, the text an f-string puts for
    \<^verbatim>\<open>{x:spec}\<close> (\<^verbatim>\<open>{x}\<close> is the empty spec); formatting a float never raises;
  \<^item> \<open>stdout_encodes s\<close> says that the encoding of standard output can encode the text
    \<open>s\<close>; \<^verbatim>\<open>print(s)\<close> raises \<^verbatim>\<open>UnicodeEncodeError\<close> when it cannot.
\<close>

record 'f interp =
  fl_zero :: 'f
  fl_of_int :: "int \<Rightarrow> 'f option"
  fl_add :: "'f \<Rightarrow> 'f \<Rightarrow> 'f"
  fl_mul :: "'f \<Rightarrow> 'f \<Rightarrow> 'f"
  fl_lt_zero :: "'f \<Rightarrow> bool"
  fl_eq :: "'f \<Rightarrow> 'f \<Rightarrow> bool"
  fl_eq_int :: "'f \<Rightarrow> int \<Rightarrow> bool"
  fl_format :: "string \<Rightarrow> 'f \<Rightarrow> string"
  stdout_encodes :: "string \<Rightarrow> bool"

subsection \<open>Numbers and dictionary keys\<close>

text \<open>
  \<^verbatim>\<open>isinstance(v, (int, float))\<close> holds for \<^verbatim>\<open>bool\<close> (a subclass of int), \<^verbatim>\<open>int\<close>
  and \<^verbatim>\<open>float\<close>: \<open>as_number v\<close> is the number \<open>v\<close> is, \<open>None\<close> when the test
  fails.
\<close>

datatype 'f number = NBool bool | NInt int | NFloat 'f

fun as_number :: "'f json \<Rightarrow> 'f number option" where
  "as_number (JBool b) = Some (NBool b)"
| "as_number (JInt i) = Some (NInt i)"
| "as_number (JFloat x) = Some (NFloat x)"
| "as_number JNull = None"
| "as_number (JStr s) = None"
| "as_number (JList vs) = None"
| "as_number (JDict kvs) = None"

text \<open>The integer an int or a bool is in arithmetic (\<^verbatim>\<open>True\<close> is 1); a float has none.\<close>

fun int_of :: "'f number \<Rightarrow> int option" where
  "int_of (NBool b) = Some (if b then 1 else 0)"
| "int_of (NInt i) = Some i"
| "int_of (NFloat x) = None"

text \<open>\<^verbatim>\<open>n < 0\<close> for a number.\<close>

fun num_lt_zero :: "'f interp \<Rightarrow> 'f number \<Rightarrow> bool" where
  "num_lt_zero fl (NBool b) = False"
| "num_lt_zero fl (NInt i) = (i < 0)"
| "num_lt_zero fl (NFloat x) = fl_lt_zero fl x"

text \<open>Two numbers as keys of a dictionary: \<^verbatim>\<open>m == n\<close>.\<close>

fun num_eq :: "'f interp \<Rightarrow> 'f number \<Rightarrow> 'f number \<Rightarrow> bool" where
  "num_eq fl (NFloat x) (NFloat y) = fl_eq fl x y"
| "num_eq fl (NFloat x) (NInt j) = fl_eq_int fl x j"
| "num_eq fl (NFloat x) (NBool c) = fl_eq_int fl x (if c then 1 else 0)"
| "num_eq fl (NInt i) (NFloat y) = fl_eq_int fl y i"
| "num_eq fl (NBool b) (NFloat y) = fl_eq_int fl y (if b then 1 else 0)"
| "num_eq fl (NInt i) (NInt j) = (i = j)"
| "num_eq fl (NInt i) (NBool c) = (i = (if c then 1 else 0))"
| "num_eq fl (NBool b) (NInt j) = ((if b then 1 else 0) = j)"
| "num_eq fl (NBool b) (NBool c) = (b = c)"

text \<open>
  A dictionary key must be hashable: \<^verbatim>\<open>None\<close>, a number or a string. Hashing a list or a
  dict raises \<^verbatim>\<open>TypeError\<close>: \<open>as_key\<close> is \<open>None\<close> there.
\<close>

datatype 'f key = KNone | KNum "'f number" | KStr string

fun as_key :: "'f json \<Rightarrow> 'f key option" where
  "as_key JNull = Some KNone"
| "as_key (JBool b) = Some (KNum (NBool b))"
| "as_key (JInt i) = Some (KNum (NInt i))"
| "as_key (JFloat x) = Some (KNum (NFloat x))"
| "as_key (JStr s) = Some (KStr s)"
| "as_key (JList vs) = None"
| "as_key (JDict kvs) = None"

text \<open>Key equality, as a dictionary lookup decides it (\<^verbatim>\<open>1 == 1.0 == True\<close>).\<close>

fun key_eq :: "'f interp \<Rightarrow> 'f key \<Rightarrow> 'f key \<Rightarrow> bool" where
  "key_eq fl KNone KNone = True"
| "key_eq fl (KStr s) (KStr t) = (s = t)"
| "key_eq fl (KNum m) (KNum n) = num_eq fl m n"
| "key_eq fl j k = False"

text \<open>
  The price catalogue is a dictionary whose keys are whatever the titles were. It is kept as
  its list of entries in insertion order; \<open>dict_get\<close> is the lookup behind both
  \<^verbatim>\<open>k in d\<close> and \<^verbatim>\<open>d[k]\<close>, \<open>dict_set\<close> is \<^verbatim>\<open>d[k] = v\<close>.
\<close>

type_synonym 'f catalogue = "('f key \<times> 'f json) list"

fun dict_get :: "'f interp \<Rightarrow> 'f catalogue \<Rightarrow> 'f key \<Rightarrow> 'f json option" where
  "dict_get fl [] k = None"
| "dict_get fl ((j, v) # rest) k = (if key_eq fl j k then Some v else dict_get fl rest k)"

fun dict_set :: "'f interp \<Rightarrow> 'f catalogue \<Rightarrow> 'f key \<Rightarrow> 'f json \<Rightarrow> 'f catalogue" where
  "dict_set fl [] k v = [(k, v)]"
| "dict_set fl ((j, w) # rest) k v =
     (if key_eq fl j k then (j, v) # rest else (j, w) # dict_set fl rest k v)"

subsection \<open>Text of values in f-strings\<close>

definition digit_char :: "nat \<Rightarrow> char" where
  "digit_char d = ''0123456789'' ! (d mod 10)"

fun show_nat :: "nat \<Rightarrow> string" where
  "show_nat n = (if n < 10 then [digit_char n] else show_nat (n div 10) @ [digit_char (n mod 10)])"

declare show_nat.simps [simp del]

definition show_int :: "int \<Rightarrow> string" where
  "show_int i = (if i < 0 then CHR ''-'' # show_nat (nat (- i)) else show_nat (nat i))"

text \<open>
  The text of an int in an f-string. The interpreter refuses to convert an int of more than
  \<^verbatim>\<open>sys.int_max_str_digits\<close> digits (4300 unless the environment changes it) and raises
  \<^verbatim>\<open>ValueError\<close> with the message below. The positions \<^verbatim>\<open>idx\<close> and the counts of the report
  are lengths of lists, far below that limit; they are written with \<open>show_nat\<close>.
\<close>

definition int_max_str_digits :: nat where
  "int_max_str_digits = 4300"

definition int_str_limit_text :: string where
  "int_str_limit_text =
     ''Exceeds the limit (4300 digits) for integer string conversion; ''
     @ ''use sys.set_int_max_str_digits() to increase the limit''"

definition int_str :: "int \<Rightarrow> exn + string" where
  "int_str i =
     (if int_max_str_digits < length (show_nat (nat \<bar>i\<bar>)) then Inl (ValueError int_str_limit_text)
      else Inr (show_int i))"

text \<open>\<^verbatim>\<open>f"{n}"\<close> for a number.\<close>

fun str_number :: "'f interp \<Rightarrow> 'f number \<Rightarrow> exn + string" where
  "str_number fl (NBool b) = Inr (if b then ''True'' else ''False'')"
| "str_number fl (NInt i) = int_str i"
| "str_number fl (NFloat x) = Inr (fl_format fl [] x)"

text \<open>\<^verbatim>\<open>f"{k}"\<close> for a hashable value.\<close>

fun str_key :: "'f interp \<Rightarrow> 'f key \<Rightarrow> exn + string" where
  "str_key fl KNone = Inr ''None''"
| "str_key fl (KNum n) = str_number fl n"
| "str_key fl (KStr s) = Inr s"

definition quote :: string where
  "quote = [CHR 0x27]"

text \<open>\<^verbatim>\<open>f"{type(v)}"\<close>.\<close>

fun type_repr :: "'f json \<Rightarrow> string" where
  "type_repr JNull = ''<class '' @ quote @ ''NoneType'' @ quote @ ''>''"
| "type_repr (JBool b) = ''<class '' @ quote @ ''bool'' @ quote @ ''>''"
| "type_repr (JInt i) = ''<class '' @ quote @ ''int'' @ quote @ ''>''"
| "type_repr (JFloat x) = ''<class '' @ quote @ ''float'' @ quote @ ''>''"
| "type_repr (JStr s) = ''<class '' @ quote @ ''str'' @ quote @ ''>''"
| "type_repr (JList vs) = ''<class '' @ quote @ ''list'' @ quote @ ''>''"
| "type_repr (JDict kvs) = ''<class '' @ quote @ ''dict'' @ quote @ ''>''"

section \<open>Arithmetic of the cost computation\<close>

text \<open>
  The float a number is when it meets a float in \<^verbatim>\<open>*\<close> or \<^verbatim>\<open>+\<close>: an int or a bool is
  converted, which raises \<^verbatim>\<open>OverflowError\<close> when the int is too large.
\<close>

fun to_float :: "'f interp \<Rightarrow> 'f number \<Rightarrow> exn + 'f" where
  "to_float fl (NFloat x) = Inr x"
| "to_float fl (NInt i) = (case fl_of_int fl i of None \<Rightarrow> Inl OverflowError | Some x \<Rightarrow> Inr x)"
| "to_float fl (NBool b) =
     (case fl_of_int fl (if b then 1 else 0) of None \<Rightarrow> Inl OverflowError | Some x \<Rightarrow> Inr x)"

text \<open>
  \<^verbatim>\<open>m * n\<close> on two numbers: exact on ints and bools (the result is an int), a float
  product as soon as one operand is a float.
\<close>

definition num_mul :: "'f interp \<Rightarrow> 'f number \<Rightarrow> 'f number \<Rightarrow> exn + 'f json" where
  "num_mul fl m n =
     (case (int_of m, int_of n) of
        (Some a, Some b) \<Rightarrow> Inr (JInt (a * b))
      | _ \<Rightarrow>
        (case to_float fl m of
           Inl e \<Rightarrow> Inl e
         | Inr x \<Rightarrow>
           (case to_float fl n of
              Inl e \<Rightarrow> Inl e
            | Inr y \<Rightarrow> Inr (JFloat (fl_mul fl x y)))))"

text \<open>
  A string or a list times an int or a bool is its repetition (empty for a count below 1);
  nothing else of JSON can be repeated. (A repetition too large for memory raises at this
  point already; the model does not bound memory.)
\<close>

fun seq_repeat :: "'f json \<Rightarrow> int \<Rightarrow> exn + 'f json" where
  "seq_repeat (JStr s) c = Inr (JStr (concat (replicate (nat c) s)))"
| "seq_repeat (JList vs) c = Inr (JList (concat (replicate (nat c) vs)))"
| "seq_repeat v c = Inl TypeError"

text \<open>\<^verbatim>\<open>a * b\<close> on two values of a JSON document.\<close>

definition py_mul :: "'f interp \<Rightarrow> 'f json \<Rightarrow> 'f json \<Rightarrow> exn + 'f json" where
  "py_mul fl a b =
     (case (as_number a, as_number b) of
        (Some m, Some n) \<Rightarrow> num_mul fl m n
      | (None, Some n) \<Rightarrow> (case int_of n of Some c \<Rightarrow> seq_repeat a c | None \<Rightarrow> Inl TypeError)
      | (Some m, None) \<Rightarrow> (case int_of m of Some c \<Rightarrow> seq_repeat b c | None \<Rightarrow> Inl TypeError)
      | (None, None) \<Rightarrow> Inl TypeError)"

text \<open>\<^verbatim>\<open>total_cost += v\<close> where \<^verbatim>\<open>total_cost\<close> is a float: only a number can be added.\<close>

definition float_iadd :: "'f interp \<Rightarrow> 'f \<Rightarrow> 'f json \<Rightarrow> exn + 'f" where
  "float_iadd fl total_cost v =
     (case as_number v of
        None \<Rightarrow> Inl TypeError
      | Some n \<Rightarrow> (case to_float fl n of Inl e \<Rightarrow> Inl e | Inr y \<Rightarrow> Inr (fl_add fl total_cost y)))"

text \<open>\<^verbatim>\<open>d[k]\<close> on a dictionary with string keys.\<close>

definition getitem :: "'f pydict \<Rightarrow> string \<Rightarrow> exn + 'f json" where
  "getitem d k = (case map_of d k of None \<Rightarrow> Inl KeyError | Some v \<Rightarrow> Inr v)"

section \<open>The program\<close>

subsection \<open>\<^verbatim>\<open>build_price_catalogue\<close>\<close>

text \<open>
  The loop over the products, with the catalogue built so far. Storing under a title that is
  a list or a dict raises \<^verbatim>\<open>TypeError\<close> (unhashable), which nothing catches.
\<close>

fun build_loop :: "'f interp \<Rightarrow> 'f pydict list \<Rightarrow> 'f catalogue \<Rightarrow> exn + 'f catalogue" where
  "build_loop fl [] catalogue = Inr catalogue"
| "build_loop fl (product # rest) catalogue =
     (if map_of product ''title'' \<noteq> None \<and> map_of product ''price'' \<noteq> None then
        (case getitem product ''price'' of
           Inl e \<Rightarrow> Inl e
         | Inr price \<Rightarrow>
           (case getitem product ''title'' of
              Inl e \<Rightarrow> Inl e
            | Inr title \<Rightarrow>
              (case as_key title of
                 None \<Rightarrow> Inl TypeError
               | Some k \<Rightarrow> build_loop fl rest (dict_set fl catalogue k price))))
      else build_loop fl rest catalogue)"

definition build_price_catalogue :: "'f interp \<Rightarrow> 'f pydict list \<Rightarrow> exn + 'f catalogue" where
  "build_price_catalogue fl products = build_loop fl products []"

subsection \<open>\<^verbatim>\<open>validate_sale_item\<close>\<close>

definition required_fields :: "string list" where
  "required_fields = [''SALE_ID'', ''SALE_Date'', ''Product'', ''Quantity'']"

text \<open>The loop over the required fields: the first one that is not in the record.\<close>

fun missing_field :: "string list \<Rightarrow> 'f pydict \<Rightarrow> string option" where
  "missing_field [] sale = None"
| "missing_field (field # others) sale =
     (if map_of sale field = None then Some field else missing_field others sale)"

text \<open>
  The statements under \<^verbatim>\<open>try\<close>, with the pair \<^verbatim>\<open>(is_valid, error_message)\<close> they return.
  The f-string of the negative quantity raises \<^verbatim>\<open>ValueError\<close> for an int of more than 4300
  digits.
\<close>

definition check_quantity :: "'f interp \<Rightarrow> 'f pydict \<Rightarrow> exn + (bool \<times> string)" where
  "check_quantity fl sale =
     (case getitem sale ''Quantity'' of
        Inl e \<Rightarrow> Inl e
      | Inr quantity \<Rightarrow>
        (case as_number quantity of
           None \<Rightarrow> Inr (False, ''Quantity must be a number, got '' @ type_repr quantity)
         | Some n \<Rightarrow>
           if num_lt_zero fl n then
             (case str_number fl n of
                Inl e \<Rightarrow> Inl e
              | Inr shown \<Rightarrow> Inr (False, ''Quantity cannot be negative (got '' @ shown @ '')''))
           else Inr (True, [])))"

text \<open>
  \<^verbatim>\<open>except (ValueError, TypeError) as e\<close>: a \<^verbatim>\<open>ValueError\<close> becomes the result
  \<^verbatim>\<open>(False, f"Invalid quantity value: {e}")\<close>. The statements under \<^verbatim>\<open>try\<close> are a subscript
  of a dictionary by a string, an \<^verbatim>\<open>isinstance\<close> test, a comparison of an int, bool or float
  with 0 and two f-strings: none raises \<^verbatim>\<open>TypeError\<close> (the lemma \<open>check_quantity_raises\<close>
  below), so the handler has no other case here. A \<^verbatim>\<open>KeyError\<close> is not caught.
\<close>

fun quantity_handler :: "exn + (bool \<times> string) \<Rightarrow> exn + (bool \<times> string)" where
  "quantity_handler (Inl (ValueError msg)) = Inr (False, ''Invalid quantity value: '' @ msg)"
| "quantity_handler (Inl e) = Inl e"
| "quantity_handler (Inr r) = Inr r"

text \<open>The argument \<^verbatim>\<open>line_num\<close> is not used by the source either.\<close>

definition validate_sale_item :: "'f interp \<Rightarrow> 'f pydict \<Rightarrow> nat \<Rightarrow> exn + (bool \<times> string)" where
  "validate_sale_item fl sale line_num =
     (case missing_field required_fields sale of
        Some field \<Rightarrow> Inr (False, ''Missing required field '' @ quote @ field @ quote)
      | None \<Rightarrow> quantity_handler (check_quantity fl sale))"

subsection \<open>\<^verbatim>\<open>compute_sales\<close>\<close>

text \<open>
  \<^verbatim>\<open>errors.append(error); print(f"WARNING: {error}"); continue\<close>: the total as it was and one
  more error, unless the console cannot encode the line. What the console shows is not part of
  the model, only whether \<^verbatim>\<open>print\<close> raises.
\<close>

definition report_error :: "'f interp \<Rightarrow> string \<Rightarrow> 'f \<times> string list \<Rightarrow> exn + ('f \<times> string list)" where
  "report_error fl error st =
     (case st of (total_cost, errors) \<Rightarrow>
        if stdout_encodes fl (''WARNING: '' @ error) then Inr (total_cost, errors @ [error])
        else Inl UnicodeEncodeError)"

text \<open>
  The body of the loop, on the record at position \<open>idx\<close> (counted from 1) and the pair of
  the running total and the error list. The f-string of a product that is not in the catalogue
  raises \<^verbatim>\<open>ValueError\<close> when the product is an int of more than 4300 digits.
\<close>

definition process_sale ::
  "'f interp \<Rightarrow> 'f catalogue \<Rightarrow> nat \<Rightarrow> 'f pydict \<Rightarrow> 'f \<times> string list \<Rightarrow> exn + ('f \<times> string list)" where
  "process_sale fl price_catalogue idx sale st =
     (case st of (total_cost, errors) \<Rightarrow>
      (case validate_sale_item fl sale idx of
         Inl e \<Rightarrow> Inl e
       | Inr (is_valid, error_msg) \<Rightarrow>
         if \<not> is_valid then
           report_error fl (''Sale #'' @ show_nat idx @ '': '' @ error_msg) st
         else
           (case getitem sale ''Product'' of
              Inl e \<Rightarrow> Inl e
            | Inr product_name \<Rightarrow>
              (case getitem sale ''Quantity'' of
                 Inl e \<Rightarrow> Inl e
               | Inr quantity \<Rightarrow>
                 (case as_key product_name of
                    None \<Rightarrow> Inl TypeError
                  | Some k \<Rightarrow>
                    (case dict_get fl price_catalogue k of
                       None \<Rightarrow>
                         (case str_key fl k of
                            Inl e \<Rightarrow> Inl e
                          | Inr shown \<Rightarrow>
                              report_error fl
                                (''Sale #'' @ show_nat idx @ '': '' @ ''Product '' @ quote @ shown
                                 @ quote @ '' not found in catalogue'') st)
                     | Some price \<Rightarrow>
                       (case py_mul fl price quantity of
                          Inl e \<Rightarrow> Inl e
                        | Inr sale_cost \<Rightarrow>
                          (case float_iadd fl total_cost sale_cost of
                             Inl e \<Rightarrow> Inl e
                           | Inr new_total \<Rightarrow> Inr (new_total, errors)))))))))"

fun compute_loop ::
  "'f interp \<Rightarrow> 'f catalogue \<Rightarrow> nat \<Rightarrow> 'f pydict list \<Rightarrow> 'f \<times> string list \<Rightarrow> exn + ('f \<times> string list)" where
  "compute_loop fl price_catalogue idx [] st = Inr st"
| "compute_loop fl price_catalogue idx (sale # rest) st =
     (case process_sale fl price_catalogue idx sale st of
        Inl e \<Rightarrow> Inl e
      | Inr st' \<Rightarrow> compute_loop fl price_catalogue (Suc idx) rest st')"

definition compute_sales ::
  "'f interp \<Rightarrow> 'f catalogue \<Rightarrow> 'f pydict list \<Rightarrow> exn + ('f \<times> string list)" where
  "compute_sales fl price_catalogue sales_records =
     compute_loop fl price_catalogue 1 sales_records (fl_zero fl, [])"

subsection \<open>The report\<close>

definition format_currency :: "'f interp \<Rightarrow> 'f \<Rightarrow> string" where
  "format_currency fl amount = ''$'' @ fl_format fl '',.2f'' amount"





subsection \<open>\<^verbatim>\<open>main\<close>, after the two documents are loaded\<close>

text \<open>
  What \<^verbatim>\<open>main\<close> hands to \<^verbatim>\<open>display_results\<close> and \<^verbatim>\<open>save_results\<close> besides the
  elapsed time: the total, \<^verbatim>\<open>len(sales_records)\<close> and the errors.
\<close>

definition main_results ::
  "'f interp \<Rightarrow> 'f pydict list \<Rightarrow> 'f pydict list \<Rightarrow> exn + ('f \<times> nat \<times> string list)" where
  "main_results fl products sales_records =
     (case build_price_catalogue fl products of
        Inl e \<Rightarrow> Inl e
      | Inr price_catalogue \<Rightarrow>
        (case compute_sales fl price_catalogue sales_records of
           Inl e \<Rightarrow> Inl e
         | Inr (total_cost, errors) \<Rightarrow> Inr (total_cost, length sales_records, errors)))"


section \<open>Instances of the parameter for the examples\<close>

text \<open>
  An instance of the parameter on the rationals: every operation is computed without
  rounding, and there are no infinities and no NaN. Every finite binary64 value is a rational,
  and on values whose sums and products are again binary64 values (small integers, halves,
  quarters) the instance computes what the interpreter computes. It serves the concrete
  examples only, all at such values; no general statement is about it. Its console is a UTF-8
  console, which encodes every text but a lone surrogate.

  \<open>format_fixed\<close> is the fixed-point notation of \<^verbatim>\<open>.2f\<close> and \<^verbatim>\<open>.4f\<close>: the value
  rounded to \<open>d\<close> decimals, ties to even, with a comma between groups of three digits for
  \<^verbatim>\<open>,\<close>. \<open>exact_repr\<close>, for the empty format, is the decimal expansion, which is the
  interpreter's text for the floats it prints in full (\<^verbatim>\<open>-2.5\<close>, \<^verbatim>\<open>0.125\<close>, \<^verbatim>\<open>30.0\<close>);
  the program uses no other format.
\<close>

definition round_half_even :: "rat \<Rightarrow> int" where
  "round_half_even q =
     (let n = \<lfloor>q\<rfloor>; r = q - of_int n in
      if r < 1 / 2 then n else if 1 / 2 < r then n + 1 else if even n then n else n + 1)"

definition zero_pad :: "nat \<Rightarrow> string \<Rightarrow> string" where
  "zero_pad w s = replicate (w - length s) (CHR ''0'') @ s"

fun show_grouped :: "nat \<Rightarrow> string" where
  "show_grouped n =
     (if n < 1000 then show_nat n
      else show_grouped (n div 1000) @ '','' @ zero_pad 3 (show_nat (n mod 1000)))"

declare show_grouped.simps [simp del]

definition format_fixed :: "bool \<Rightarrow> nat \<Rightarrow> rat \<Rightarrow> string" where
  "format_fixed grouped d q =
     (let m = nat (round_half_even (\<bar>q\<bar> * 10 ^ d)) in
      (if q < 0 then ''-'' else [])
      @ (if grouped then show_grouped (m div 10 ^ d) else show_nat (m div 10 ^ d))
      @ ''.'' @ zero_pad d (show_nat (m mod 10 ^ d)))"

fun frac_digits :: "nat \<Rightarrow> rat \<Rightarrow> string" where
  "frac_digits fuel r =
     (if fuel = 0 \<or> r = 0 then []
      else digit_char (nat \<lfloor>r * 10\<rfloor>) # frac_digits (fuel - 1) (r * 10 - of_int \<lfloor>r * 10\<rfloor>))"

declare frac_digits.simps [simp del]

definition exact_repr :: "rat \<Rightarrow> string" where
  "exact_repr q =
     (let a = \<bar>q\<bar>; n = \<lfloor>a\<rfloor>; r = a - of_int n in
      (if q < 0 then ''-'' else []) @ show_nat (nat n) @ ''.''
      @ (if r = 0 then ''0'' else frac_digits 1074 r))"

definition exact_format :: "string \<Rightarrow> rat \<Rightarrow> string" where
  "exact_format spec q =
     (if spec = '',.2f'' then format_fixed True 2 q
      else if spec = ''.4f'' then format_fixed False 4 q
      else exact_repr q)"

text \<open>
  A lone surrogate is the byte \<^verbatim>\<open>ED\<close> followed by a byte from \<^verbatim>\<open>A0\<close> on (the bytes after
  \<^verbatim>\<open>ED\<close> in UTF-8 proper are below \<^verbatim>\<open>A0\<close>).
\<close>

fun has_surrogate :: "string \<Rightarrow> bool" where
  "has_surrogate (a # b # rest) =
     ((a = CHR 0xED \<and> 160 \<le> (of_char b :: nat)) \<or> has_surrogate (b # rest))"
| "has_surrogate s = False"

definition utf8_encodes :: "string \<Rightarrow> bool" where
  "utf8_encodes s \<longleftrightarrow> \<not> has_surrogate s"

definition exact_fl :: "rat interp" where
  "exact_fl = \<lparr> fl_zero = 0, fl_of_int = (\<lambda>i. Some (of_int i)), fl_add = (+), fl_mul = (*),
     fl_lt_zero = (\<lambda>x. x < 0), fl_eq = (=), fl_eq_int = (\<lambda>x i. x = of_int i),
     fl_format = exact_format, stdout_encodes = utf8_encodes \<rparr>"

text \<open>
  The same arithmetic with the special values of binary64, which \<^verbatim>\<open>json.load\<close> reads from
  \<^verbatim>\<open>Infinity\<close>, \<^verbatim>\<open>-Infinity\<close> and \<^verbatim>\<open>NaN\<close>: infinity minus infinity and infinity times zero
  are NaN, NaN is below nothing and absorbs every operation.
\<close>

datatype xfloat = Finite rat | PInf | NInf | NaN

fun x_add :: "xfloat \<Rightarrow> xfloat \<Rightarrow> xfloat" where
  "x_add NaN y = NaN"
| "x_add x NaN = NaN"
| "x_add PInf NInf = NaN"
| "x_add NInf PInf = NaN"
| "x_add PInf y = PInf"
| "x_add x PInf = PInf"
| "x_add NInf y = NInf"
| "x_add x NInf = NInf"
| "x_add (Finite a) (Finite b) = Finite (a + b)"

fun x_sign :: "xfloat \<Rightarrow> int" where
  "x_sign (Finite a) = (if a < 0 then - 1 else if a = 0 then 0 else 1)"
| "x_sign PInf = 1"
| "x_sign NInf = - 1"
| "x_sign NaN = 0"

fun x_mul :: "xfloat \<Rightarrow> xfloat \<Rightarrow> xfloat" where
  "x_mul NaN y = NaN"
| "x_mul x NaN = NaN"
| "x_mul (Finite a) (Finite b) = Finite (a * b)"
| "x_mul x y = (if x_sign x * x_sign y = 0 then NaN else if 0 < x_sign x * x_sign y then PInf else NInf)"

fun x_lt_zero :: "xfloat \<Rightarrow> bool" where
  "x_lt_zero (Finite a) = (a < 0)"
| "x_lt_zero NInf = True"
| "x_lt_zero x = False"

fun x_format :: "string \<Rightarrow> xfloat \<Rightarrow> string" where
  "x_format spec (Finite a) = exact_format spec a"
| "x_format spec PInf = ''inf''"
| "x_format spec NInf = ''-inf''"
| "x_format spec NaN = ''nan''"

definition special_fl :: "xfloat interp" where
  "special_fl = \<lparr> fl_zero = Finite 0, fl_of_int = (\<lambda>i. Some (Finite (of_int i))), fl_add = x_add,
     fl_mul = x_mul, fl_lt_zero = x_lt_zero, fl_eq = (=),
     fl_eq_int = (\<lambda>x i. x = Finite (of_int i)), fl_format = x_format,
     stdout_encodes = utf8_encodes \<rparr>"


section \<open>The notions the properties are stated with\<close>

text \<open>
  A record passes all validation checks: all four fields present, \<^verbatim>\<open>Quantity\<close> a number
  that is not negative, \<^verbatim>\<open>Product\<close> present in the catalogue.
\<close>

definition passes_checks :: "'f interp \<Rightarrow> 'f catalogue \<Rightarrow> 'f pydict \<Rightarrow> bool" where
  "passes_checks fl cat sale =
     (list_all (\<lambda>field. map_of sale field \<noteq> None) [''SALE_ID'', ''SALE_Date'', ''Product'', ''Quantity'']
      \<and> (case map_of sale ''Quantity'' of
            None \<Rightarrow> False
          | Some q \<Rightarrow> (case as_number q of None \<Rightarrow> False | Some n \<Rightarrow> \<not> num_lt_zero fl n))
      \<and> (case map_of sale ''Product'' of
            None \<Rightarrow> False
          | Some p \<Rightarrow> (case as_key p of None \<Rightarrow> False | Some k \<Rightarrow> dict_get fl cat k \<noteq> None)))"

text \<open>\<^verbatim>\<open>catalogue[Product] * Quantity\<close> for one record.\<close>

definition record_cost :: "'f interp \<Rightarrow> 'f catalogue \<Rightarrow> 'f pydict \<Rightarrow> exn + 'f json" where
  "record_cost fl cat sale =
     (case map_of sale ''Product'' of
        None \<Rightarrow> Inl KeyError
      | Some p \<Rightarrow>
        (case as_key p of
           None \<Rightarrow> Inl TypeError
         | Some k \<Rightarrow>
           (case dict_get fl cat k of
              None \<Rightarrow> Inl KeyError
            | Some price \<Rightarrow>
              (case map_of sale ''Quantity'' of
                 None \<Rightarrow> Inl KeyError
               | Some q \<Rightarrow> py_mul fl price q))))"

text \<open>The sum of the costs of a list of records, added to a float from left to right.\<close>

fun sum_costs :: "'f interp \<Rightarrow> 'f catalogue \<Rightarrow> 'f \<Rightarrow> 'f pydict list \<Rightarrow> exn + 'f" where
  "sum_costs fl cat acc [] = Inr acc"
| "sum_costs fl cat acc (sale # rest) =
     (case record_cost fl cat sale of
        Inl e \<Rightarrow> Inl e
      | Inr c \<Rightarrow>
        (case float_iadd fl acc c of
           Inl e \<Rightarrow> Inl e
         | Inr acc' \<Rightarrow> sum_costs fl cat acc' rest))"

definition spec_total :: "'f interp \<Rightarrow> 'f catalogue \<Rightarrow> 'f pydict list \<Rightarrow> exn + 'f" where
  "spec_total fl cat sales = sum_costs fl cat (fl_zero fl) (filter (passes_checks fl cat) sales)"

text \<open>
  What the loop body decides about a record before it touches the total or the error list:
  \<open>None\<close> when the record passes validation and its product is in the catalogue,
  \<open>Some (Inr reason)\<close> when the record is Invalid with that reason (the message of the
  validation, or that the product is not in the catalogue), \<open>Some (Inl e)\<close> when the lookup of
  the product or the text of the reason raises \<open>e\<close>.
\<close>

definition rejection :: "'f interp \<Rightarrow> 'f catalogue \<Rightarrow> 'f pydict \<Rightarrow> (exn + string) option" where
  "rejection fl cat sale =
     (case validate_sale_item fl sale 0 of
        Inl e \<Rightarrow> Some (Inl e)
      | Inr (is_valid, error_msg) \<Rightarrow>
          if \<not> is_valid then Some (Inr error_msg)
          else
            (case map_of sale ''Product'' of
               None \<Rightarrow> Some (Inl KeyError)
             | Some p \<Rightarrow>
               (case as_key p of
                  None \<Rightarrow> Some (Inl TypeError)
                | Some k \<Rightarrow>
                    if dict_get fl cat k \<noteq> None then None
                    else
                      (case str_key fl k of
                         Inl e \<Rightarrow> Some (Inl e)
                       | Inr shown \<Rightarrow>
                           Some (Inr (''Product '' @ quote @ shown @ quote @ '' not found in catalogue''))))))"

text \<open>The line of the error list for the record at position \<open>idx\<close>.\<close>

definition error_line :: "nat \<Rightarrow> string \<Rightarrow> string" where
  "error_line idx reason = ''Sale #'' @ show_nat idx @ '': '' @ reason"

text \<open>
  The error list in input order: one line per Invalid record, with its position counted from 1.
\<close>

definition expected_errors :: "'f interp \<Rightarrow> 'f catalogue \<Rightarrow> 'f pydict list \<Rightarrow> string list" where
  "expected_errors fl cat sales =
     concat (map (\<lambda>(idx, sale).
                    case rejection fl cat sale of
                      Some (Inr reason) \<Rightarrow> [error_line idx reason]
                    | _ \<Rightarrow> [])
                 (enumerate 1 sales))"

text \<open>
  Every record that is not costed can be reported: its product can be looked up, the text of
  its reason can be built, and the console can encode the warning line.
\<close>

definition errors_reportable :: "'f interp \<Rightarrow> 'f catalogue \<Rightarrow> 'f pydict list \<Rightarrow> bool" where
  "errors_reportable fl cat sales =
     list_all (\<lambda>(idx, sale).
                 case rejection fl cat sale of
                   None \<Rightarrow> True
                 | Some (Inl e) \<Rightarrow> False
                 | Some (Inr reason) \<Rightarrow> stdout_encodes fl (''WARNING: '' @ error_line idx reason))
              (enumerate 1 sales)"

text \<open>
  Last write wins: the price the catalogue must hold for the title \<open>t\<close> is the price of the
  last product, in input order, that has both fields and that title.
\<close>

definition last_price :: "string \<Rightarrow> 'f pydict list \<Rightarrow> 'f json option" where
  "last_price t products =
     (case filter (\<lambda>p. map_of p ''title'' = Some (JStr t) \<and> map_of p ''price'' \<noteq> None) products of
        [] \<Rightarrow> None
      | p # ps \<Rightarrow> map_of (last (p # ps)) ''price'')"

text \<open>Every \<^verbatim>\<open>Product\<close> of the records is hashable.\<close>

definition hashable_products :: "'f pydict list \<Rightarrow> bool" where
  "hashable_products sales =
     list_all (\<lambda>sale. case map_of sale ''Product'' of None \<Rightarrow> True | Some p \<Rightarrow> as_key p \<noteq> None) sales"

text \<open>
  The int that \<^verbatim>\<open>total_cost += price * quantity\<close> converts to a float is convertible: the
  product of two ints, or the int operand beside a float.
\<close>

definition conversion_ok :: "'f interp \<Rightarrow> 'f number \<Rightarrow> 'f number \<Rightarrow> bool" where
  "conversion_ok fl m n =
     (case (int_of m, int_of n) of
        (Some a, Some b) \<Rightarrow> fl_of_int fl (a * b) \<noteq> None
      | (Some a, None) \<Rightarrow> fl_of_int fl a \<noteq> None
      | (None, Some b) \<Rightarrow> fl_of_int fl b \<noteq> None
      | (None, None) \<Rightarrow> True)"

text \<open>
  The cost of a record that passes all checks can be computed and added: the price the
  catalogue holds for its product is a number, and the ints that are converted are convertible.
\<close>

definition cost_ok :: "'f interp \<Rightarrow> 'f catalogue \<Rightarrow> 'f pydict \<Rightarrow> bool" where
  "cost_ok fl cat sale =
     (case (map_of sale ''Product'', map_of sale ''Quantity'') of
        (Some p, Some q) \<Rightarrow>
          (case as_key p of
             None \<Rightarrow> False
           | Some k \<Rightarrow>
             (case dict_get fl cat k of
                None \<Rightarrow> False
              | Some price \<Rightarrow>
                (case (as_number price, as_number q) of
                   (Some m, Some n) \<Rightarrow> conversion_ok fl m n
                 | _ \<Rightarrow> False)))
      | _ \<Rightarrow> False)"

definition costs_computable :: "'f interp \<Rightarrow> 'f catalogue \<Rightarrow> 'f pydict list \<Rightarrow> bool" where
  "costs_computable fl cat sales =
     list_all (\<lambda>sale. if passes_checks fl cat sale then cost_ok fl cat sale else True) sales"

text \<open>
  The laws of an order \<open>le\<close> on the floats, with a set \<open>fin\<close> of the finite ones, under which
  the running total cannot decrease. They hold of binary64 with \<^verbatim>\<open><=\<close> and the finite floats:
  \<^verbatim>\<open><=\<close> is transitive, and reflexive on every float that is not NaN; a sum with a float that
  is at least zero is at least the other summand; a product of two finite floats that are at
  least zero is at least zero (it is NaN when one is infinite and the other zero); an int that
  is at least zero converts, when it converts, to a finite float that is at least zero; a finite
  float that is not below zero is at least zero.
\<close>

definition order_laws :: "'f interp \<Rightarrow> ('f \<Rightarrow> 'f \<Rightarrow> bool) \<Rightarrow> ('f \<Rightarrow> bool) \<Rightarrow> bool" where
  "order_laws fl le fin \<longleftrightarrow>
     le (fl_zero fl) (fl_zero fl)
     \<and> (\<forall>t. le (fl_zero fl) t \<longrightarrow> le t t)
     \<and> (\<forall>a b c. le a b \<and> le b c \<longrightarrow> le a c)
     \<and> (\<forall>t y. le (fl_zero fl) t \<and> le (fl_zero fl) y \<longrightarrow> le t (fl_add fl t y))
     \<and> (\<forall>x y. fin x \<and> fin y \<and> le (fl_zero fl) x \<and> le (fl_zero fl) y
            \<longrightarrow> le (fl_zero fl) (fl_mul fl x y))
     \<and> (\<forall>i x. 0 \<le> i \<and> fl_of_int fl i = Some x \<longrightarrow> fin x \<and> le (fl_zero fl) x)
     \<and> (\<forall>x. fin x \<and> \<not> fl_lt_zero fl x \<longrightarrow> le (fl_zero fl) x)"

text \<open>
  No price of the catalogue is a negative number or a float outside \<open>fin\<close>. A price that is
  not a number is left alone: a record that uses it stops the run with \<^verbatim>\<open>TypeError\<close>.
\<close>

fun nonneg_number :: "'f interp \<Rightarrow> ('f \<Rightarrow> 'f \<Rightarrow> bool) \<Rightarrow> ('f \<Rightarrow> bool) \<Rightarrow> 'f number \<Rightarrow> bool" where
  "nonneg_number fl le fin (NBool b) = True"
| "nonneg_number fl le fin (NInt i) = (0 \<le> i)"
| "nonneg_number fl le fin (NFloat x) = (fin x \<and> le (fl_zero fl) x)"

definition nonneg_prices ::
  "'f interp \<Rightarrow> ('f \<Rightarrow> 'f \<Rightarrow> bool) \<Rightarrow> ('f \<Rightarrow> bool) \<Rightarrow> 'f catalogue \<Rightarrow> bool" where
  "nonneg_prices fl le fin cat =
     list_all (\<lambda>(k, price). case as_number price of None \<Rightarrow> True | Some m \<Rightarrow> nonneg_number fl le fin m) cat"

text \<open>Every \<^verbatim>\<open>Quantity\<close> of the records that is a float is finite.\<close>

definition finite_quantity :: "('f \<Rightarrow> bool) \<Rightarrow> 'f pydict \<Rightarrow> bool" where
  "finite_quantity fin sale =
     (case map_of sale ''Quantity'' of Some (JFloat x) \<Rightarrow> fin x | _ \<Rightarrow> True)"

definition finite_quantities :: "('f \<Rightarrow> bool) \<Rightarrow> 'f pydict list \<Rightarrow> bool" where
  "finite_quantities fin sales = list_all (finite_quantity fin) sales"

text \<open>
  A number that is exactly zero: the int 0, \<^verbatim>\<open>False\<close>, or a float that equals 0. And the laws of zero
  under which a cost of zero leaves the total as it was, with a set \<open>fin\<close> of floats: the
  int 0 converts to a zero; a zero is not below zero; adding a zero to a float of \<open>fin\<close> gives
  that float; a float of \<open>fin\<close> times a zero is a zero; a converted int is in \<open>fin\<close>. They hold
  of binary64 with the finite floats other than the negative zero.
\<close>

fun is_zero :: "'f interp \<Rightarrow> 'f number \<Rightarrow> bool" where
  "is_zero fl (NBool b) = (\<not> b)"
| "is_zero fl (NInt i) = (i = 0)"
| "is_zero fl (NFloat x) = fl_eq_int fl x 0"

definition zero_laws :: "'f interp \<Rightarrow> ('f \<Rightarrow> bool) \<Rightarrow> bool" where
  "zero_laws fl fin \<longleftrightarrow>
     (\<exists>z. fl_of_int fl 0 = Some z \<and> fl_eq_int fl z 0)
     \<and> (\<forall>x. fl_eq_int fl x 0 \<longrightarrow> \<not> fl_lt_zero fl x)
     \<and> (\<forall>t x. fin t \<and> fl_eq_int fl x 0 \<longrightarrow> fl_add fl t x = t)
     \<and> (\<forall>y x. fin y \<and> fl_eq_int fl x 0 \<longrightarrow> fl_eq_int fl (fl_mul fl y x) 0)
     \<and> (\<forall>i y. fl_of_int fl i = Some y \<longrightarrow> fin y)"

text \<open>The price is an int, a bool or a float of \<open>fin\<close>.\<close>

fun finite_number :: "('f \<Rightarrow> bool) \<Rightarrow> 'f number \<Rightarrow> bool" where
  "finite_number fin (NFloat x) = fin x"
| "finite_number fin n = True"

text \<open>A product that has both fields, the condition under which the builder stores it.\<close>

definition complete_product :: "'f pydict \<Rightarrow> bool" where
  "complete_product product \<longleftrightarrow> map_of product ''title'' \<noteq> None \<and> map_of product ''price'' \<noteq> None"

text \<open>Every title the builder stores under is hashable.\<close>

definition hashable_titles :: "'f pydict list \<Rightarrow> bool" where
  "hashable_titles products =
     list_all (\<lambda>product. complete_product product \<longrightarrow>
        (case map_of product ''title'' of None \<Rightarrow> True | Some title \<Rightarrow> as_key title \<noteq> None)) products"

text \<open>The one line of the report that shows the elapsed time.\<close>

definition time_line :: "'f interp \<Rightarrow> 'f \<Rightarrow> string" where
  "time_line fl elapsed_time = ''Execution Time: '' @ fl_format fl ''.4f'' elapsed_time @ '' seconds''"

section \<open>Examples\<close>

definition sale_of :: "'f json \<Rightarrow> 'f json \<Rightarrow> 'f pydict" where
  "sale_of product quantity =
     [(''SALE_ID'', JInt 1), (''SALE_Date'', JStr ''2024-01-01''),
      (''Product'', product), (''Quantity'', quantity)]"

definition product_of :: "string \<Rightarrow> 'f json \<Rightarrow> 'f pydict" where
  "product_of title price = [(''title'', JStr title), (''price'', price)]"

definition example_catalogue :: "rat catalogue" where
  "example_catalogue = [(KStr ''A'', JInt 10), (KStr ''B'', JFloat (5 / 2))]"

definition example_sales :: "rat pydict list" where
  "example_sales =
     [sale_of (JStr ''A'') (JInt 3),
      [(''SALE_ID'', JInt 2), (''SALE_Date'', JStr ''2024-01-02''), (''Product'', JStr ''A'')],
      sale_of (JStr ''A'') (JInt (- 2)),
      sale_of (JStr ''Z'') (JInt 1),
      sale_of (JStr ''B'') (JInt 4),
      sale_of (JStr ''B'') (JStr ''4'')]"

definition example_errors :: "string list" where
  "example_errors =
     [''Sale #2: Missing required field '' @ quote @ ''Quantity'' @ quote,
      ''Sale #3: Quantity cannot be negative (got -2)'',
      ''Sale #4: Product '' @ quote @ ''Z'' @ quote @ '' not found in catalogue'',
      ''Sale #6: Quantity must be a number, got <class '' @ quote @ ''str'' @ quote @ ''>'']"

definition example_products :: "rat pydict list" where
  "example_products =
     [product_of ''A'' (JInt 8), [(''title'', JStr ''B'')], product_of ''A'' (JInt 10),
      [(''price'', JInt 7)], product_of ''B'' (JFloat (5 / 2))]"


section \<open>Properties\<close>

subsection \<open>Validation\<close>

lemma missing_field_None:
  "missing_field fs sale = None \<longleftrightarrow> list_all (\<lambda>f. map_of sale f \<noteq> None) fs"
  by (induction fs) auto

lemma missing_field_find:
  "missing_field fs sale = find (\<lambda>f. map_of sale f = None) fs"
  by (induction fs) auto

lemma required_present:
  "missing_field required_fields sale = None \<longleftrightarrow>
     map_of sale ''SALE_ID'' \<noteq> None \<and> map_of sale ''SALE_Date'' \<noteq> None
     \<and> map_of sale ''Product'' \<noteq> None \<and> map_of sale ''Quantity'' \<noteq> None"
  by (simp add: missing_field_None required_fields_def)

lemma str_number_raises: "str_number fl n = Inl e \<Longrightarrow> e = ValueError int_str_limit_text"
  by (cases n) (auto simp: int_str_def split: if_splits)

lemma check_quantity_raises:
  "check_quantity fl sale = Inl e \<Longrightarrow> e = KeyError \<or> e = ValueError int_str_limit_text"
  by (auto simp: check_quantity_def getitem_def split: option.splits if_splits sum.splits
      dest: str_number_raises)

lemma validate_present:
  assumes "missing_field required_fields sale = None" and "map_of sale ''Quantity'' = Some q"
  shows "validate_sale_item fl sale n =
     (case as_number q of
        None \<Rightarrow> Inr (False, ''Quantity must be a number, got '' @ type_repr q)
      | Some m \<Rightarrow>
          if num_lt_zero fl m then
            (case str_number fl m of
               Inl e \<Rightarrow> Inr (False, ''Invalid quantity value: '' @ int_str_limit_text)
             | Inr shown \<Rightarrow> Inr (False, ''Quantity cannot be negative (got '' @ shown @ '')''))
          else Inr (True, []))"
  using assms
  by (auto simp: validate_sale_item_def check_quantity_def getitem_def
      split: option.splits sum.splits dest: str_number_raises)

lemma validate_returns: "\<exists>ok msg. validate_sale_item fl sale n = Inr (ok, msg)"
proof (cases "missing_field required_fields sale")
  case None
  then obtain q where "map_of sale ''Quantity'' = Some q"
    by (auto simp: required_present)
  with None show ?thesis
    by (auto simp: validate_present split: option.splits sum.splits)
next
  case (Some f)
  then show ?thesis by (auto simp: validate_sale_item_def)
qed

lemma validate_line_num: "validate_sale_item fl sale n = validate_sale_item fl sale 0"
  by (simp add: validate_sale_item_def)

lemma validate_True:
  "validate_sale_item fl sale n = Inr (True, msg) \<longleftrightarrow>
     msg = [] \<and> missing_field required_fields sale = None
     \<and> (\<exists>q m. map_of sale ''Quantity'' = Some q \<and> as_number q = Some m \<and> \<not> num_lt_zero fl m)"
proof (cases "missing_field required_fields sale")
  case (Some f)
  then show ?thesis by (auto simp: validate_sale_item_def)
next
  case None
  then obtain q where q: "map_of sale ''Quantity'' = Some q"
    by (auto simp: required_present)
  show ?thesis
    unfolding validate_present [OF None q] using None q
    by (auto split: option.splits sum.splits)
qed

text \<open>
  Claim C7. A sale record that lacks at least one of the four required fields is Invalid, and
  the reason is \<^verbatim>\<open>Missing required field '<field>'\<close> for the first field, in the check order
  \<^verbatim>\<open>SALE_ID\<close>, \<^verbatim>\<open>SALE_Date\<close>, \<^verbatim>\<open>Product\<close>, \<^verbatim>\<open>Quantity\<close>, that the record lacks.
\<close>

theorem validate_names_first_missing_field:
  assumes "f \<in> set required_fields" and "map_of sale f = None"
  shows "\<exists>g. find (\<lambda>field. map_of sale field = None)
                [''SALE_ID'', ''SALE_Date'', ''Product'', ''Quantity''] = Some g
             \<and> validate_sale_item fl sale line_num
                 = Inr (False, ''Missing required field '' @ quote @ g @ quote)"
proof -
  have "\<not> list_all (\<lambda>f. map_of sale f \<noteq> None) required_fields"
    using assms by (auto simp: list_all_iff)
  then obtain g where g: "missing_field required_fields sale = Some g"
    using missing_field_None [of required_fields sale] by auto
  then have "find (\<lambda>field. map_of sale field = None) required_fields = Some g"
    by (simp add: missing_field_find)
  with g show ?thesis
    by (simp add: validate_sale_item_def required_fields_def)
qed

theorem validate_names_first_missing_field_witness:
  "\<exists>g. find (\<lambda>field. map_of [(''SALE_ID'', JInt 1), (''SALE_Date'', JStr ''2024-01-01''), (''Product'', JStr ''A'')] field = None)
                [''SALE_ID'', ''SALE_Date'', ''Product'', ''Quantity''] = Some g
       \<and> g = ''Quantity''
       \<and> validate_sale_item exact_fl [(''SALE_ID'', JInt 1), (''SALE_Date'', JStr ''2024-01-01''), (''Product'', JStr ''A'')] 1
            = Inr (False, ''Missing required field '' @ quote @ g @ quote)"
  using validate_names_first_missing_field
    [of "''Quantity''" "[(''SALE_ID'', JInt 1), (''SALE_Date'', JStr ''2024-01-01''), (''Product'', JStr ''A'')]" exact_fl 1]
  by (simp add: required_fields_def)

subsection \<open>The loop body\<close>

lemma rejection_None: "rejection fl cat sale = None \<longleftrightarrow> passes_checks fl cat sale"
proof (cases "validate_sale_item fl sale 0")
  case (Inl e)
  with validate_returns [of fl sale 0] show ?thesis by auto
next
  case (Inr r)
  obtain ok msg where r: "r = (ok, msg)" by (cases r)
  show ?thesis
  proof (cases ok)
    case False
    with Inr r have "\<not> passes_checks fl cat sale"
      using validate_True [of fl sale 0 "[]"]
      by (auto simp: passes_checks_def missing_field_None required_fields_def
          validate_sale_item_def check_quantity_def getitem_def
          split: option.splits sum.splits if_splits)
    with Inr r False show ?thesis by (simp add: rejection_def)
  next
    case True
    with Inr r have v: "validate_sale_item fl sale 0 = Inr (True, msg)" by simp
    then obtain q m where facts: "missing_field required_fields sale = None"
      "map_of sale ''Quantity'' = Some q" "as_number q = Some m" "\<not> num_lt_zero fl m"
      by (auto simp: validate_True)
    then obtain p where p: "map_of sale ''Product'' = Some p"
      by (auto simp: required_present)
    from facts p have present: "list_all (\<lambda>field. map_of sale field \<noteq> None)
        [''SALE_ID'', ''SALE_Date'', ''Product'', ''Quantity'']"
      by (simp add: required_present)
    show ?thesis
      using v facts p present
      by (auto simp: rejection_def passes_checks_def split: option.splits sum.splits)
  qed
qed

lemma process_sale_cases:
  "process_sale fl cat idx sale (t, es) =
     (case rejection fl cat sale of
        Some (Inr reason) \<Rightarrow> report_error fl (error_line idx reason) (t, es)
      | Some (Inl e) \<Rightarrow> Inl e
      | None \<Rightarrow>
          (case record_cost fl cat sale of
             Inl e \<Rightarrow> Inl e
           | Inr c \<Rightarrow> (case float_iadd fl t c of Inl e \<Rightarrow> Inl e | Inr t' \<Rightarrow> Inr (t', es))))"
proof -
  obtain ok msg where v: "validate_sale_item fl sale 0 = Inr (ok, msg)"
    using validate_returns by blast
  then have vi: "validate_sale_item fl sale idx = Inr (ok, msg)"
    using validate_line_num [of fl sale idx] by simp
  show ?thesis
  proof (cases ok)
    case False
    with v vi show ?thesis
      by (simp add: process_sale_def rejection_def error_line_def)
  next
    case True
    with v obtain q m where facts: "missing_field required_fields sale = None"
      "map_of sale ''Quantity'' = Some q" "as_number q = Some m" "\<not> num_lt_zero fl m"
      by (auto simp: validate_True)
    then obtain p where p: "map_of sale ''Product'' = Some p"
      by (auto simp: required_present)
    from True v vi facts p show ?thesis
      by (auto simp: process_sale_def rejection_def error_line_def record_cost_def getitem_def
          split: option.splits sum.splits)
  qed
qed

subsection \<open>The loop over the records\<close>

lemma passes_rejection: "passes_checks fl cat sale \<Longrightarrow> rejection fl cat sale = None"
  by (simp add: rejection_None)

lemma compute_loop_total:
  "compute_loop fl cat idx sales (t, es) = Inr (t', es') \<Longrightarrow>
   sum_costs fl cat t (filter (passes_checks fl cat) sales) = Inr t'"
proof (induction sales arbitrary: idx t es)
  case Nil
  then show ?case by simp
next
  case (Cons sale rest)
  show ?case
  proof (cases "passes_checks fl cat sale")
    case True
    with Cons.prems obtain c t1 where c: "record_cost fl cat sale = Inr c"
      and t1: "float_iadd fl t c = Inr t1"
      and loop: "compute_loop fl cat (Suc idx) rest (t1, es) = Inr (t', es')"
      by (auto simp: process_sale_cases passes_rejection split: sum.splits)
    from Cons.IH [OF loop] True c t1 show ?thesis by simp
  next
    case False
    then have "rejection fl cat sale \<noteq> None"
      by (simp add: rejection_None)
    with Cons.prems obtain line where
      loop: "compute_loop fl cat (Suc idx) rest (t, es @ [line]) = Inr (t', es')"
      by (auto simp: process_sale_cases report_error_def split: sum.splits option.splits if_splits)
    from Cons.IH [OF loop] False show ?thesis by simp
  qed
qed

lemma rejected_step:
  assumes "\<not> passes_checks fl cat sale" and "process_sale fl cat idx sale (t, es) = Inr (t', es')"
  shows "\<exists>reason. rejection fl cat sale = Some (Inr reason)
           \<and> stdout_encodes fl (''WARNING: '' @ error_line idx reason)
           \<and> t' = t \<and> es' = es @ [error_line idx reason]"
proof -
  from assms(1) have "rejection fl cat sale \<noteq> None"
    by (simp add: rejection_None)
  with assms(2) show ?thesis
    by (auto simp: process_sale_cases report_error_def split: sum.splits option.splits if_splits)
qed

lemma costed_step:
  assumes "passes_checks fl cat sale" and "process_sale fl cat idx sale (t, es) = Inr (t', es')"
  shows "es' = es \<and> (\<exists>c. record_cost fl cat sale = Inr c \<and> float_iadd fl t c = Inr t')"
  using assms by (auto simp: process_sale_cases passes_rejection split: sum.splits)

lemma hashable_rejection:
  assumes "case map_of sale ''Product'' of None \<Rightarrow> True | Some p \<Rightarrow> as_key p \<noteq> None"
  shows "rejection fl cat sale \<noteq> Some (Inl TypeError)"
proof -
  obtain ok msg where v: "validate_sale_item fl sale 0 = Inr (ok, msg)"
    using validate_returns by blast
  show ?thesis
  proof (cases "map_of sale ''Product''")
    case None
    with v show ?thesis
      by (auto simp: rejection_def split: if_splits)
  next
    case (Some p)
    with assms obtain k where k: "as_key p = Some k" by auto
    have "str_key fl k \<noteq> Inl TypeError"
      by (cases k) (auto simp: int_str_def dest: str_number_raises)
    with v Some k show ?thesis
      by (auto simp: rejection_def split: if_splits sum.splits)
  qed
qed

lemma compute_loop_total_eq:
  "list_all (\<lambda>(idx, sale).
                 case rejection fl cat sale of
                   None \<Rightarrow> True
                 | Some (Inl e) \<Rightarrow> False
                 | Some (Inr reason) \<Rightarrow> stdout_encodes fl (''WARNING: '' @ error_line idx reason))
              (enumerate idx sales) \<Longrightarrow>
   map_sum id fst (compute_loop fl cat idx sales (t, es))
     = sum_costs fl cat t (filter (passes_checks fl cat) sales)"
proof (induction sales arbitrary: idx t es)
  case Nil
  then show ?case by simp
next
  case (Cons sale rest)
  show ?case
  proof (cases "rejection fl cat sale")
    case None
    then have "passes_checks fl cat sale" by (simp add: rejection_None)
    with None Cons.IH [of "Suc idx"] Cons.prems show ?thesis
      by (auto simp: process_sale_cases split: sum.splits)
  next
    case (Some r)
    then have np: "\<not> passes_checks fl cat sale"
      using rejection_None [of fl cat sale] by simp
    from Some Cons.prems obtain reason where r: "r = Inr reason"
      and enc: "stdout_encodes fl (''WARNING: '' @ error_line idx reason)"
      by (cases r) auto
    with Some np Cons.IH [of "Suc idx"] Cons.prems show ?thesis
      by (simp add: process_sale_cases report_error_def)
  qed
qed


lemma compute_loop_count:
  "compute_loop fl cat idx sales (t, es) = Inr (t', es') \<Longrightarrow>
   length es' + length (filter (passes_checks fl cat) sales) = length es + length sales"
proof (induction sales arbitrary: idx t es)
  case Nil
  then show ?case by simp
next
  case (Cons sale rest)
  from Cons.prems obtain st1 where step: "process_sale fl cat idx sale (t, es) = Inr st1"
    and loop: "compute_loop fl cat (Suc idx) rest st1 = Inr (t', es')"
    by (auto split: sum.splits)
  obtain t1 es1 where st1: "st1 = (t1, es1)" by (cases st1)
  show ?case
  proof (cases "passes_checks fl cat sale")
    case True
    from costed_step [OF True step [unfolded st1]] have "es1 = es" by simp
    with Cons.IH [OF loop [unfolded st1]] True show ?thesis by simp
  next
    case False
    from rejected_step [OF False step [unfolded st1]] have "length es1 = Suc (length es)" by auto
    with Cons.IH [OF loop [unfolded st1]] False show ?thesis by simp
  qed
qed

lemma compute_loop_append:
  "compute_loop fl cat idx (xs @ ys) st =
     (case compute_loop fl cat idx xs st of
        Inl e \<Rightarrow> Inl e
      | Inr st' \<Rightarrow> compute_loop fl cat (idx + length xs) ys st')"
  by (induction xs arbitrary: idx st) (auto split: sum.splits)

subsection \<open>When the cost computation returns\<close>

lemma to_float_int:
  "int_of m = Some a \<Longrightarrow>
   to_float fl m = (case fl_of_int fl a of None \<Rightarrow> Inl OverflowError | Some x \<Rightarrow> Inr x)"
  by (cases m) auto

lemma int_of_None: "int_of n = None \<Longrightarrow> \<exists>y. n = NFloat y"
  by (cases n) auto

lemma number_cost:
  "(\<exists>c t'. num_mul fl m n = Inr c \<and> float_iadd fl t c = Inr t') \<longleftrightarrow> conversion_ok fl m n"
proof (cases "int_of m")
  case mi: (Some a)
  show ?thesis
  proof (cases "int_of n")
    case (Some b)
    with mi show ?thesis
      by (auto simp: conversion_ok_def num_mul_def float_iadd_def split: option.splits)
  next
    case None
    then obtain y where "n = NFloat y"
      using int_of_None by blast
    with mi show ?thesis
      by (auto simp: conversion_ok_def num_mul_def float_iadd_def to_float_int split: option.splits)
  qed
next
  case mf: None
  then obtain x where x: "m = NFloat x"
    using int_of_None by blast
  show ?thesis
  proof (cases "int_of n")
    case (Some b)
    with x show ?thesis
      by (auto simp: conversion_ok_def num_mul_def float_iadd_def to_float_int split: option.splits)
  next
    case None
    then obtain y where "n = NFloat y"
      using int_of_None by blast
    with x show ?thesis
      by (auto simp: conversion_ok_def num_mul_def float_iadd_def)
  qed
qed

lemma not_number_cost:
  assumes "as_number price = None" and "as_number q = Some n" and "py_mul fl price q = Inr c"
  shows "float_iadd fl t c = Inl TypeError"
  using assms
  by (cases price) (auto simp: py_mul_def float_iadd_def split: option.splits)

lemma cost_ok_iff:
  assumes "passes_checks fl cat sale"
  shows "cost_ok fl cat sale \<longleftrightarrow>
     (\<exists>c t'. record_cost fl cat sale = Inr c \<and> float_iadd fl t c = Inr t')"
proof -
  from assms obtain p q k price n where facts:
    "map_of sale ''Product'' = Some p" "map_of sale ''Quantity'' = Some q"
    "as_key p = Some k" "dict_get fl cat k = Some price" "as_number q = Some n"
    by (auto simp: passes_checks_def split: option.splits)
  show ?thesis
  proof (cases "as_number price")
    case None
    with facts not_number_cost [OF None facts(5), of fl _ t] show ?thesis
      by (auto simp: cost_ok_def record_cost_def)
  next
    case (Some m)
    with facts number_cost [of fl m n t] show ?thesis
      by (simp add: cost_ok_def record_cost_def py_mul_def)
  qed
qed

lemma compute_loop_returns_iff:
  "(\<exists>t' es'. compute_loop fl cat idx sales (t, es) = Inr (t', es')) \<longleftrightarrow>
     list_all (\<lambda>(idx, sale).
                 case rejection fl cat sale of
                   None \<Rightarrow> True
                 | Some (Inl e) \<Rightarrow> False
                 | Some (Inr reason) \<Rightarrow> stdout_encodes fl (''WARNING: '' @ error_line idx reason))
              (enumerate idx sales)
     \<and> list_all (\<lambda>sale. if passes_checks fl cat sale then cost_ok fl cat sale else True) sales"
proof (induction sales arbitrary: idx t es)
  case Nil
  then show ?case by simp
next
  case (Cons sale rest)
  show ?case
  proof (cases "rejection fl cat sale")
    case None
    then have passes: "passes_checks fl cat sale" by (simp add: rejection_None)
    show ?thesis
    proof (cases "cost_ok fl cat sale")
      case True
      then obtain c t1 where "record_cost fl cat sale = Inr c" "float_iadd fl t c = Inr t1"
        using cost_ok_iff [OF passes, of t] by blast
      with None passes True Cons.IH [of "Suc idx" t1 es] show ?thesis
        by (simp add: process_sale_cases)
    next
      case False
      then have "\<not> (\<exists>c t'. record_cost fl cat sale = Inr c \<and> float_iadd fl t c = Inr t')"
        using cost_ok_iff [OF passes, of t] by blast
      with None passes False show ?thesis
        by (auto simp: process_sale_cases split: sum.splits)
    qed
  next
    case (Some r)
    then have np: "\<not> passes_checks fl cat sale"
      using rejection_None [of fl cat sale] by simp
    show ?thesis
    proof (cases r)
      case (Inl e)
      with Some show ?thesis by (simp add: process_sale_cases)
    next
      case (Inr reason)
      with Some np Cons.IH [of "Suc idx" t "es @ [error_line idx reason]"] show ?thesis
        by (simp add: process_sale_cases report_error_def)
    qed
  qed
qed

lemma returns_iff:
  "(\<exists>t es. compute_sales fl cat sales = Inr (t, es)) \<longleftrightarrow>
     errors_reportable fl cat sales \<and> costs_computable fl cat sales"
  unfolding compute_sales_def errors_reportable_def costs_computable_def
  by (rule compute_loop_returns_iff)

subsection \<open>The total, the count and the examples\<close>

lemma example_run:
  "compute_sales exact_fl example_catalogue example_sales = Inr (40, example_errors)"
  by code_simp

lemma example_build:
  "build_price_catalogue exact_fl example_products = Inr example_catalogue"
  by code_simp


lemma example_hashable_products: "hashable_products example_sales"
  by code_simp

lemma example_reportable: "errors_reportable exact_fl example_catalogue example_sales"
  by code_simp


lemma example_valid:
  "filter (passes_checks exact_fl example_catalogue) example_sales
     = [sale_of (JStr ''A'') (JInt 3), sale_of (JStr ''B'') (JInt 4)]"
  by code_simp

lemma example_expected: "expected_errors exact_fl example_catalogue example_sales = example_errors"
  by code_simp

text \<open>
  Claim C1. The total that \<^verbatim>\<open>compute_sales\<close> returns is the sum, from \<^verbatim>\<open>0.0\<close> and in input
  order, of \<^verbatim>\<open>catalogue[Product] * Quantity\<close> over exactly the records that pass all
  validation checks. When every \<^verbatim>\<open>Product\<close> is hashable and every record that is not costed
  can be reported (its reason can be written and the console can encode its warning line), the
  two agree throughout: the function returns exactly when that sum can be computed, and raises
  what the sum raises otherwise. A record that fails a check leaves the total as it was.
\<close>

theorem total_is_sum_over_valid_records:
  "(compute_sales fl cat sales = Inr (total_cost, errors) \<longrightarrow> spec_total fl cat sales = Inr total_cost)
   \<and> (hashable_products sales \<and> errors_reportable fl cat sales \<longrightarrow>
        map_sum id fst (compute_sales fl cat sales) = spec_total fl cat sales)
   \<and> (\<forall>idx sale t es t' es'.
          \<not> passes_checks fl cat sale \<and> process_sale fl cat idx sale (t, es) = Inr (t', es')
          \<longrightarrow> t' = t)"
proof (intro conjI impI allI)
  assume "compute_sales fl cat sales = Inr (total_cost, errors)"
  then show "spec_total fl cat sales = Inr total_cost"
    using compute_loop_total [of fl cat 1 sales "fl_zero fl" "[]" total_cost errors]
    by (simp add: compute_sales_def spec_total_def)
next
  assume "hashable_products sales \<and> errors_reportable fl cat sales"
  then have "errors_reportable fl cat sales" ..
  then show "map_sum id fst (compute_sales fl cat sales) = spec_total fl cat sales"
    unfolding compute_sales_def spec_total_def errors_reportable_def
    by (rule compute_loop_total_eq)
next
  fix idx sale t es t' es'
  assume "\<not> passes_checks fl cat sale \<and> process_sale fl cat idx sale (t, es) = Inr (t', es')"
  then show "t' = t"
    using rejected_step [of fl cat sale idx t es t' es'] by blast
qed

theorem total_is_sum_over_valid_records_witness:
  "spec_total exact_fl example_catalogue example_sales = Inr 40
   \<and> map_sum id fst (compute_sales exact_fl example_catalogue example_sales) = Inr 40
   \<and> filter (passes_checks exact_fl example_catalogue) example_sales
       = [sale_of (JStr ''A'') (JInt 3), sale_of (JStr ''B'') (JInt 4)]"
proof -
  from total_is_sum_over_valid_records [of exact_fl example_catalogue example_sales 40 example_errors]
  have "spec_total exact_fl example_catalogue example_sales = Inr 40"
    and "map_sum id fst (compute_sales exact_fl example_catalogue example_sales)
          = spec_total exact_fl example_catalogue example_sales"
    using example_run example_hashable_products example_reportable by blast+
  with example_valid show ?thesis by (simp only: simp_thms)
qed

text \<open>
  Claim C4. The count that \<^verbatim>\<open>main\<close> reports is the length of the list of sale records:
  whenever the catalogue is built and \<^verbatim>\<open>compute_sales\<close> returns, \<^verbatim>\<open>main\<close> passes on that
  length with the total and the errors. The number of error strings that \<^verbatim>\<open>compute_sales\<close>
  returns plus the number of records that pass all checks is that length, and the function
  does return when every rejected record can be reported and the cost of every record that
  passes can be computed. Each pass of the loop body that returns either leaves the error list
  as it was and adds \<^verbatim>\<open>catalogue[Product] * Quantity\<close> to the total (the record passes all
  checks), or leaves the total as it was and appends exactly one error line.
\<close>

theorem every_record_costed_or_reported:
  "(compute_sales fl cat sales = Inr (total_cost, errors) \<longrightarrow>
      length errors + length (filter (passes_checks fl cat) sales) = length sales)
   \<and> (errors_reportable fl cat sales \<and> costs_computable fl cat sales \<longrightarrow>
        (\<exists>t es. compute_sales fl cat sales = Inr (t, es)
           \<and> length es + length (filter (passes_checks fl cat) sales) = length sales))
   \<and> (process_sale fl cat idx sale (t, es) = Inr (t', es') \<longrightarrow>
        (if passes_checks fl cat sale then
           es' = es \<and> (\<exists>c. record_cost fl cat sale = Inr c \<and> float_iadd fl t c = Inr t')
         else t' = t \<and> (\<exists>reason. es' = es @ [error_line idx reason])))
   \<and> (build_price_catalogue fl products = Inr cat
        \<and> compute_sales fl cat sales = Inr (total_cost, errors) \<longrightarrow>
        main_results fl products sales = Inr (total_cost, length sales, errors))
   \<and> (main_results fl products sales = Inr (total_cost, sales_count, errors) \<longrightarrow>
        sales_count = length sales
        \<and> (\<exists>price_catalogue. build_price_catalogue fl products = Inr price_catalogue
              \<and> compute_sales fl price_catalogue sales = Inr (total_cost, errors)
              \<and> length errors + length (filter (passes_checks fl price_catalogue) sales) = sales_count))"
proof -
  have count: "length es + length (filter (passes_checks fl c) sales) = length sales"
    if "compute_sales fl c sales = Inr (t, es)" for c t es
    using that compute_loop_count [of fl c 1 sales "fl_zero fl" "[]" t es]
    by (simp add: compute_sales_def)
  show ?thesis
  proof (intro conjI impI)
    assume "compute_sales fl cat sales = Inr (total_cost, errors)"
    then show "length errors + length (filter (passes_checks fl cat) sales) = length sales"
      by (rule count)
  next
    assume "errors_reportable fl cat sales \<and> costs_computable fl cat sales"
    then obtain t es where run: "compute_sales fl cat sales = Inr (t, es)"
      using returns_iff [of fl cat sales] by blast
    with count [OF run]
    show "\<exists>t es. compute_sales fl cat sales = Inr (t, es)
           \<and> length es + length (filter (passes_checks fl cat) sales) = length sales"
      by blast
  next
    assume step: "process_sale fl cat idx sale (t, es) = Inr (t', es')"
    show "if passes_checks fl cat sale then
           es' = es \<and> (\<exists>c. record_cost fl cat sale = Inr c \<and> float_iadd fl t c = Inr t')
         else t' = t \<and> (\<exists>reason. es' = es @ [error_line idx reason])"
    proof (cases "passes_checks fl cat sale")
      case True
      with costed_step [OF True step] show ?thesis by simp
    next
      case False
      with rejected_step [OF False step] show ?thesis by auto
    qed
  next
    assume "build_price_catalogue fl products = Inr cat
        \<and> compute_sales fl cat sales = Inr (total_cost, errors)"
    then show "main_results fl products sales = Inr (total_cost, length sales, errors)"
      by (simp add: main_results_def)
  next
    assume "main_results fl products sales = Inr (total_cost, sales_count, errors)"
    then show "sales_count = length sales"
      by (auto simp: main_results_def split: sum.splits)
  next
    assume "main_results fl products sales = Inr (total_cost, sales_count, errors)"
    then show "\<exists>price_catalogue. build_price_catalogue fl products = Inr price_catalogue
              \<and> compute_sales fl price_catalogue sales = Inr (total_cost, errors)
              \<and> length errors + length (filter (passes_checks fl price_catalogue) sales) = sales_count"
      by (auto simp: main_results_def count split: sum.splits)
  qed
qed

theorem every_record_costed_or_reported_witness:
  "main_results exact_fl example_products example_sales = Inr (40, 6, example_errors)
   \<and> compute_sales exact_fl example_catalogue example_sales = Inr (40, example_errors)
   \<and> length example_errors + length (filter (passes_checks exact_fl example_catalogue) example_sales)
       = length example_sales
   \<and> length example_errors = 4
   \<and> filter (passes_checks exact_fl example_catalogue) example_sales
       = [sale_of (JStr ''A'') (JInt 3), sale_of (JStr ''B'') (JInt 4)]"
proof -
  from every_record_costed_or_reported
    [of exact_fl example_catalogue example_sales 40 example_errors _ _ _ _ _ _ example_products]
  have "length example_errors + length (filter (passes_checks exact_fl example_catalogue) example_sales)
     = length example_sales"
    and "main_results exact_fl example_products example_sales
          = Inr (40, length example_sales, example_errors)"
    using example_run example_build by blast+
  moreover have "length example_sales = 6"
    by (simp add: example_sales_def)
  moreover have "length example_errors = 4"
    by (simp add: example_errors_def)
  ultimately show ?thesis
    using example_run example_valid by (simp only: simp_thms)
qed




text \<open>
  Each part of the condition is needed: a \<^verbatim>\<open>Product\<close> that is a list cannot be hashed for the
  lookup; an int cost beyond the range of float cannot be added to the total; a \<^verbatim>\<open>Product\<close>
  that is an int of more than 4300 digits and is not in the catalogue cannot be written into
  its error line. A price that is not a number does no harm as long as no passing record
  uses it.
\<close>

lemma unhashable_product_raises:
  "compute_sales exact_fl [(KStr ''A'', JInt 10)] [sale_of (JList []) (JInt 3)] = Inl TypeError"
  by code_simp

lemma overflow_raises:
  "0 \<le> q \<Longrightarrow> fl_of_int fl (p * q) = None \<Longrightarrow>
   compute_sales fl [(KStr ''A'', JInt p)] [sale_of (JStr ''A'') (JInt q)] = Inl OverflowError"
  by (simp add: compute_sales_def process_sale_def validate_sale_item_def check_quantity_def
      required_fields_def sale_of_def getitem_def py_mul_def num_mul_def float_iadd_def)

lemma unreferenced_price_is_harmless:
  "compute_sales exact_fl [(KStr ''A'', JInt 10), (KStr ''B'', JStr ''abc'')]
     [sale_of (JStr ''A'') (JInt 3)] = Inr (30, [])"
  by code_simp

lemma show_nat_nonempty: "0 < length (show_nat n)"
  by (subst show_nat.simps) simp

lemma show_nat_digits: "10 ^ k \<le> n \<Longrightarrow> k < length (show_nat n)"
proof (induction k arbitrary: n)
  case 0
  show ?case by (rule show_nat_nonempty)
next
  case (Suc k)
  have "(10::nat) \<le> 10 ^ Suc k" by simp
  with Suc.prems have big: "\<not> n < 10" by linarith
  from Suc.prems have "10 ^ k \<le> n div 10"
    by (simp add: less_eq_div_iff_mult_less_eq mult.commute)
  then have "k < length (show_nat (n div 10))" by (rule Suc.IH)
  with big show ?case
    by (subst show_nat.simps) simp
qed

lemma long_product_raises:
  assumes "int_max_str_digits < length (show_nat (nat \<bar>n\<bar>))"
  shows "compute_sales fl [] (sale_of (JInt n) (JInt 1) # rest) = Inl (ValueError int_str_limit_text)"
  using assms
  by (simp add: compute_sales_def process_sale_def validate_sale_item_def check_quantity_def
      required_fields_def sale_of_def getitem_def int_str_def)

lemma long_int_product_stops_run:
  "compute_sales exact_fl [] [sale_of (JInt (10 ^ 4300)) (JInt 1), sale_of (JStr ''Z'') (JInt 1)]
     = Inl (ValueError int_str_limit_text)"
proof (rule long_product_raises)
  have "nat \<bar>(10::int) ^ 4300\<bar> = 10 ^ 4300"
    by (simp only: power_abs abs_numeral nat_power_eq zero_le_numeral nat_numeral)
  moreover have "(4300::nat) < length (show_nat (10 ^ 4300))"
    by (rule show_nat_digits) (rule order_refl)
  ultimately show "int_max_str_digits < length (show_nat (nat \<bar>(10::int) ^ 4300\<bar>))"
    by (simp only: int_max_str_digits_def)
qed




subsection \<open>A boolean quantity and a quantity of zero\<close>

lemma process_sale_costed:
  assumes "map_of sale ''SALE_ID'' \<noteq> None" and "map_of sale ''SALE_Date'' \<noteq> None"
    and "map_of sale ''Product'' = Some p" and "map_of sale ''Quantity'' = Some q"
    and "as_number q = Some n" and "\<not> num_lt_zero fl n"
    and "as_key p = Some k" and "dict_get fl cat k = Some price"
  shows "process_sale fl cat idx sale (t, es) =
     (case py_mul fl price q of
        Inl e \<Rightarrow> Inl e
      | Inr c \<Rightarrow> (case float_iadd fl t c of Inl e \<Rightarrow> Inl e | Inr t' \<Rightarrow> Inr (t', es)))"
proof -
  have "missing_field required_fields sale = None"
    using assms by (simp add: required_present)
  with assms show ?thesis
    by (simp add: process_sale_def validate_present getitem_def)
qed


lemma not_number_raises:
  assumes "as_number price = None" and "as_number q = Some n"
  shows "(case py_mul fl price q of
            Inl e \<Rightarrow> Inl e
          | Inr c \<Rightarrow> (case float_iadd fl t c of Inl e \<Rightarrow> Inl e | Inr t' \<Rightarrow> Inr (t', es)))
         = Inl TypeError"
  using assms
  by (cases price; cases n) (auto simp: py_mul_def float_iadd_def split: option.splits)



lemma zero_cost:
  assumes laws: "zero_laws fl fin" and zero: "is_zero fl n"
    and m: "finite_number fin m" and conv: "conversion_ok fl m n" and t: "fin t"
  shows "\<exists>c. num_mul fl m n = Inr c \<and> float_iadd fl t c = Inr t"
proof -
  from laws obtain z where z: "fl_of_int fl 0 = Some z" "fl_eq_int fl z 0"
    by (auto simp: zero_laws_def)
  from laws have add: "fl_add fl t x = t" if "fl_eq_int fl x 0" for x
    using that t by (auto simp: zero_laws_def)
  from laws have mul: "fl_eq_int fl (fl_mul fl y x) 0" if "fin y" "fl_eq_int fl x 0" for x y
    using that by (auto simp: zero_laws_def)
  from laws have conv_fin: "fin y" if "fl_of_int fl i = Some y" for i y
    using that by (auto simp: zero_laws_def)
  show ?thesis
  proof (cases "int_of n")
    case (Some b)
    with zero have b: "b = 0" by (cases n) (auto split: if_splits)
    show ?thesis
    proof (cases "int_of m")
      case ma: (Some a)
      with Some b z add [of z] show ?thesis
        by (simp add: num_mul_def float_iadd_def)
    next
      case None
      then obtain x where x: "m = NFloat x" using int_of_None by blast
      with m have "fin x" by simp
      with x Some b z add [of "fl_mul fl x z"] mul [of x z] show ?thesis
        by (simp add: num_mul_def float_iadd_def to_float_int)
    qed
  next
    case None
    then obtain x where x: "n = NFloat x" using int_of_None by blast
    with zero have x0: "fl_eq_int fl x 0" by simp
    show ?thesis
    proof (cases "int_of m")
      case (Some a)
      with x conv obtain y where y: "fl_of_int fl a = Some y"
        by (auto simp: conversion_ok_def)
      with Some x x0 add [of "fl_mul fl y x"] mul [of y x] conv_fin [of a y] show ?thesis
        by (simp add: num_mul_def float_iadd_def to_float_int)
    next
      case None
      then obtain y where y: "m = NFloat y" using int_of_None by blast
      with m have "fin y" by simp
      with y x x0 add [of "fl_mul fl y x"] mul [of y x] show ?thesis
        by (simp add: num_mul_def float_iadd_def)
    qed
  qed
qed

lemma zero_not_negative: "zero_laws fl fin \<Longrightarrow> is_zero fl n \<Longrightarrow> \<not> num_lt_zero fl n"
  by (cases n) (auto simp: zero_laws_def)

lemma exact_zero_laws: "zero_laws exact_fl (\<lambda>x. True)"
  by (simp add: zero_laws_def exact_fl_def)

text \<open>
  Claim C10 as stated fails. With the price \<^verbatim>\<open>"abc"\<close> for \<^verbatim>\<open>A\<close>, a sale of 0 units of \<^verbatim>\<open>A\<close>
  computes the empty string and raises \<^verbatim>\<open>TypeError\<close> when adding it to the total. With the
  price \<^verbatim>\<open>Infinity\<close>, which \<^verbatim>\<open>json.load\<close> accepts, the cost is infinity times zero and the total
  becomes NaN.
\<close>

theorem zero_quantity_needs_a_finite_numeric_price:
  "compute_sales exact_fl [(KStr ''A'', JStr ''abc'')] [sale_of (JStr ''A'') (JInt 0)] = Inl TypeError
   \<and> compute_sales special_fl [(KStr ''A'', JFloat PInf)] [sale_of (JStr ''A'') (JInt 0)] = Inr (NaN, [])"
  by code_simp

text \<open>
  Claim C10, as the code has it. A record with all four fields, a \<^verbatim>\<open>Quantity\<close> that is exactly
  zero and a product that is in the catalogue is Valid (only a quantity below 0 is rejected)
  and never produces an error string. It leaves the total as it was when the price is a number
  that is finite, the total is finite, and an int price beside a float quantity is small
  enough for a float; this holds for every float arithmetic that satisfies the laws of zero.
  When the price is not a number the loop body raises \<^verbatim>\<open>TypeError\<close>.
\<close>

theorem zero_quantity_is_valid:
  assumes "zero_laws fl fin"
    and "map_of sale ''SALE_ID'' \<noteq> None" and "map_of sale ''SALE_Date'' \<noteq> None"
    and "map_of sale ''Product'' = Some p" and "map_of sale ''Quantity'' = Some q"
    and "as_number q = Some n" and "is_zero fl n"
    and "as_key p = Some k" and "dict_get fl cat k = Some price"
  shows "validate_sale_item fl sale idx = Inr (True, [])
    \<and> (\<forall>new_total es. process_sale fl cat idx sale (total_cost, errors) = Inr (new_total, es)
          \<longrightarrow> es = errors)
    \<and> (\<forall>m. as_number price = Some m \<and> finite_number fin m \<and> conversion_ok fl m n \<and> fin total_cost
          \<longrightarrow> process_sale fl cat idx sale (total_cost, errors) = Inr (total_cost, errors))
    \<and> (as_number price = None
          \<longrightarrow> process_sale fl cat idx sale (total_cost, errors) = Inl TypeError)"
proof -
  have present: "missing_field required_fields sale = None"
    using assms by (simp add: required_present)
  have nonneg: "\<not> num_lt_zero fl n"
    using assms(1,7) by (rule zero_not_negative)
  have valid: "validate_sale_item fl sale idx = Inr (True, [])"
    using present assms(5,6) nonneg by (simp add: validate_present)
  have step: "process_sale fl cat idx sale (total_cost, errors) =
     (case py_mul fl price q of
        Inl e \<Rightarrow> Inl e
      | Inr c \<Rightarrow> (case float_iadd fl total_cost c of Inl e \<Rightarrow> Inl e | Inr t' \<Rightarrow> Inr (t', errors)))"
    using process_sale_costed [OF assms(2,3,4,5,6) nonneg assms(8,9)] .
  have no_error: "es = errors"
    if "process_sale fl cat idx sale (total_cost, errors) = Inr (new_total, es)" for new_total es
    using that unfolding step by (auto split: sum.splits)
  have unchanged: "process_sale fl cat idx sale (total_cost, errors) = Inr (total_cost, errors)"
    if "as_number price = Some m \<and> finite_number fin m \<and> conversion_ok fl m n \<and> fin total_cost" for m
  proof -
    from that zero_cost [OF assms(1,7), of m total_cost]
    obtain c where "num_mul fl m n = Inr c" "float_iadd fl total_cost c = Inr total_cost"
      by blast
    with that assms(6) show ?thesis
      unfolding step by (simp add: py_mul_def)
  qed
  have raises: "process_sale fl cat idx sale (total_cost, errors) = Inl TypeError"
    if "as_number price = None"
    unfolding step using that assms(6) by (rule not_number_raises)
  from valid no_error unchanged raises show ?thesis by blast
qed

theorem zero_quantity_is_valid_witness:
  "zero_laws exact_fl (\<lambda>x. True)
   \<and> validate_sale_item exact_fl (sale_of (JStr ''A'') (JInt 0)) 2 = Inr (True, [])
   \<and> process_sale exact_fl example_catalogue 2 (sale_of (JStr ''A'') (JInt 0)) (30, []) = Inr (30, [])
   \<and> process_sale exact_fl example_catalogue 2 (sale_of (JStr ''B'') (JFloat 0)) (30, []) = Inr (30, [])
   \<and> process_sale exact_fl example_catalogue 2 (sale_of (JStr ''A'') (JInt 1)) (30, []) = Inr (40, [])"
proof -
  have fields: "map_of (sale_of (JStr ''A'') (JInt 0) :: rat pydict) ''SALE_ID'' \<noteq> None"
    "map_of (sale_of (JStr ''A'') (JInt 0) :: rat pydict) ''SALE_Date'' \<noteq> None"
    "map_of (sale_of (JStr ''A'') (JInt 0) :: rat pydict) ''Product'' = Some (JStr ''A'')"
    "map_of (sale_of (JStr ''A'') (JInt 0) :: rat pydict) ''Quantity'' = Some (JInt 0)"
    by (simp_all add: sale_of_def)
  have price: "dict_get exact_fl example_catalogue (KStr ''A'') = Some (JInt 10)"
    by code_simp
  have conv: "conversion_ok exact_fl (NInt 10) (NInt 0)"
    by (simp add: conversion_ok_def exact_fl_def)
  have num: "as_number (JInt 0 :: rat json) = Some (NInt 0)"
    and zero: "is_zero exact_fl (NInt 0)"
    and key: "as_key (JStr ''A'' :: rat json) = Some (KStr ''A'')"
    and ten: "as_number (JInt 10 :: rat json) = Some (NInt 10)"
    and fin: "finite_number (\<lambda>x. True) (NInt 10 :: rat number)"
    by simp_all
  note claim = zero_quantity_is_valid
    [OF exact_zero_laws fields num zero key price, where idx = 2 and total_cost = 30 and errors = "[]"]
  have v: "validate_sale_item exact_fl (sale_of (JStr ''A'') (JInt 0)) 2 = Inr (True, [])"
    by (rule claim [THEN conjunct1])
  have s: "process_sale exact_fl example_catalogue 2 (sale_of (JStr ''A'') (JInt 0)) (30, []) = Inr (30, [])"
    using claim [THEN conjunct2, THEN conjunct2, THEN conjunct1, rule_format, of "NInt 10"]
      ten fin conv by blast
  have f: "process_sale exact_fl example_catalogue 2 (sale_of (JStr ''B'') (JFloat 0)) (30, []) = Inr (30, [])"
    by code_simp
  have one: "process_sale exact_fl example_catalogue 2 (sale_of (JStr ''A'') (JInt 1)) (30, []) = Inr (40, [])"
    by code_simp
  from exact_zero_laws v s f one show ?thesis by (intro conjI)
qed

subsection \<open>The running total\<close>

lemma order_laws_zero: "order_laws fl le fin \<Longrightarrow> le (fl_zero fl) (fl_zero fl)"
  unfolding order_laws_def by (elim conjE)

lemma order_laws_refl: "order_laws fl le fin \<Longrightarrow> le (fl_zero fl) t \<Longrightarrow> le t t"
  unfolding order_laws_def by (elim conjE) (erule allE, erule mp)

lemma order_laws_trans: "order_laws fl le fin \<Longrightarrow> le a b \<Longrightarrow> le b c \<Longrightarrow> le a c"
  unfolding order_laws_def by (elim conjE) fast

lemma order_laws_add:
  "order_laws fl le fin \<Longrightarrow> le (fl_zero fl) t \<Longrightarrow> le (fl_zero fl) y \<Longrightarrow> le t (fl_add fl t y)"
  unfolding order_laws_def by (elim conjE) fast

lemma order_laws_mul:
  "order_laws fl le fin \<Longrightarrow> fin x \<Longrightarrow> fin y \<Longrightarrow> le (fl_zero fl) x \<Longrightarrow> le (fl_zero fl) y \<Longrightarrow>
   le (fl_zero fl) (fl_mul fl x y)"
  unfolding order_laws_def by (elim conjE) fast

lemma order_laws_int:
  "order_laws fl le fin \<Longrightarrow> 0 \<le> i \<Longrightarrow> fl_of_int fl i = Some x \<Longrightarrow> fin x \<and> le (fl_zero fl) x"
  unfolding order_laws_def by (elim conjE) fast

lemma order_laws_float:
  "order_laws fl le fin \<Longrightarrow> fin x \<Longrightarrow> \<not> fl_lt_zero fl x \<Longrightarrow> le (fl_zero fl) x"
  unfolding order_laws_def by (elim conjE) fast

lemma nonneg_prices_get:
  "nonneg_prices fl le fin cat \<Longrightarrow> dict_get fl cat k = Some price \<Longrightarrow> as_number price = Some m \<Longrightarrow>
   nonneg_number fl le fin m"
  by (induction cat) (auto simp: nonneg_prices_def split: if_splits option.splits)

lemma nonneg_to_float:
  assumes "order_laws fl le fin" and "to_float fl m = Inr x" and "nonneg_number fl le fin m"
  shows "fin x \<and> le (fl_zero fl) x"
proof (cases m)
  case (NFloat y)
  with assms show ?thesis by simp
next
  case (NInt i)
  with assms(2,3) have "0 \<le> i" "fl_of_int fl i = Some x"
    by (auto split: option.splits)
  with assms(1) show ?thesis by (rule order_laws_int)
next
  case (NBool b)
  with assms(2) have "(0::int) \<le> (if b then 1 else 0)" "fl_of_int fl (if b then 1 else 0) = Some x"
    by (auto split: option.splits)
  with assms(1) show ?thesis by (rule order_laws_int)
qed

lemma nonneg_int_of: "nonneg_number fl le fin m \<Longrightarrow> int_of m = Some a \<Longrightarrow> 0 \<le> a"
  by (cases m) (auto split: if_splits)

lemma cost_nonneg:
  assumes laws: "order_laws fl le fin"
    and m: "nonneg_number fl le fin m" and n: "nonneg_number fl le fin n"
    and mul: "num_mul fl m n = Inr c" and add: "float_iadd fl t c = Inr t'"
    and t: "le (fl_zero fl) t"
  shows "le t t' \<and> le (fl_zero fl) t'"
proof -
  have "\<exists>y. t' = fl_add fl t y \<and> le (fl_zero fl) y"
  proof (cases "int_of m = None \<or> int_of n = None")
    case False
    then obtain a b where ab: "int_of m = Some a" "int_of n = Some b" by auto
    from m ab(1) have "0 \<le> a" by (rule nonneg_int_of)
    moreover from n ab(2) have "0 \<le> b" by (rule nonneg_int_of)
    ultimately have pos: "0 \<le> a * b" by (rule mult_nonneg_nonneg)
    from ab mul have c: "c = JInt (a * b)"
      by (simp add: num_mul_def)
    with add obtain y where y: "fl_of_int fl (a * b) = Some y" "t' = fl_add fl t y"
      by (auto simp: float_iadd_def split: option.splits)
    from order_laws_int [OF laws pos y(1)] y(2) show ?thesis by blast
  next
    case True
    with mul obtain x y where xy: "to_float fl m = Inr x" "to_float fl n = Inr y"
      "c = JFloat (fl_mul fl x y)"
      by (auto simp: num_mul_def split: option.splits sum.splits)
    from nonneg_to_float [OF laws xy(1) m] have x: "fin x" "le (fl_zero fl) x" by simp_all
    from nonneg_to_float [OF laws xy(2) n] have y: "fin y" "le (fl_zero fl) y" by simp_all
    from laws x(1) y(1) x(2) y(2) have "le (fl_zero fl) (fl_mul fl x y)"
      by (rule order_laws_mul)
    moreover from xy(3) add have "t' = fl_add fl t (fl_mul fl x y)"
      by (simp add: float_iadd_def)
    ultimately show ?thesis by blast
  qed
  then obtain y where y: "t' = fl_add fl t y" "le (fl_zero fl) y" by blast
  from laws t y(2) have "le t (fl_add fl t y)" by (rule order_laws_add)
  with y(1) have a: "le t t'" by simp
  from laws t a have "le (fl_zero fl) t'" by (rule order_laws_trans)
  with a show ?thesis by simp
qed

lemma quantity_nonneg:
  assumes "order_laws fl le fin" and "finite_quantity fin sale"
    and "map_of sale ''Quantity'' = Some q" and "as_number q = Some n" and "\<not> num_lt_zero fl n"
  shows "nonneg_number fl le fin n"
proof (cases n)
  case (NFloat x)
  with assms(4) have "q = JFloat x" by (cases q) auto
  with assms(2,3) have fin: "fin x" by (simp add: finite_quantity_def)
  from assms(5) NFloat have "\<not> fl_lt_zero fl x" by simp
  with assms(1) fin have "le (fl_zero fl) x" by (rule order_laws_float)
  with fin NFloat show ?thesis by simp
next
  case (NInt i)
  with assms(5) show ?thesis by simp
next
  case (NBool b)
  then show ?thesis by simp
qed

lemma rejected_total:
  assumes "rejection fl cat sale = Some r" and "process_sale fl cat idx sale (t, es) = Inr (t', es')"
  shows "t' = t"
proof (cases r)
  case (Inl e)
  with assms show ?thesis by (simp add: process_sale_cases)
next
  case (Inr reason)
  with assms show ?thesis
    by (simp add: process_sale_cases report_error_def split: if_splits)
qed

lemma step_monotone:
  assumes laws: "order_laws fl le fin" and prices: "nonneg_prices fl le fin cat"
    and q: "finite_quantity fin sale" and t: "le (fl_zero fl) t"
    and step: "process_sale fl cat idx sale (t, es) = Inr (t', es')"
  shows "le t t' \<and> le (fl_zero fl) t'"
proof (cases "rejection fl cat sale")
  case (Some r)
  from Some step have "t' = t" by (rule rejected_total)
  moreover from laws t have "le t t" by (rule order_laws_refl)
  ultimately show ?thesis using t by simp
next
  case None
  then have passes: "passes_checks fl cat sale" by (simp add: rejection_None)
  then obtain p q' k price n where facts:
    "map_of sale ''Product'' = Some p" "map_of sale ''Quantity'' = Some q'"
    "as_key p = Some k" "dict_get fl cat k = Some price"
    "as_number q' = Some n" "\<not> num_lt_zero fl n"
    by (auto simp: passes_checks_def split: option.splits)
  from facts have cost: "record_cost fl cat sale = py_mul fl price q'"
    by (simp add: record_cost_def)
  from step None cost obtain c where c: "py_mul fl price q' = Inr c" "float_iadd fl t c = Inr t'"
    by (auto simp: process_sale_cases split: sum.splits)
  show ?thesis
  proof (cases "as_number price")
    case None
    from not_number_cost [OF None facts(5) c(1), of t] c(2) show ?thesis by simp
  next
    case (Some m)
    with c(1) facts(5) have mul: "num_mul fl m n = Inr c" by (simp add: py_mul_def)
    have pm: "nonneg_number fl le fin m"
      using prices facts(4) Some by (rule nonneg_prices_get)
    have qn: "nonneg_number fl le fin n"
      using laws q facts(2,5,6) by (rule quantity_nonneg)
    from laws pm qn mul c(2) t show ?thesis by (rule cost_nonneg)
  qed
qed

lemma loop_monotone:
  "order_laws fl le fin \<Longrightarrow> nonneg_prices fl le fin cat \<Longrightarrow> finite_quantities fin sales \<Longrightarrow>
   le (fl_zero fl) t \<Longrightarrow> compute_loop fl cat idx sales (t, es) = Inr (t', es') \<Longrightarrow>
   le t t' \<and> le (fl_zero fl) t'"
proof (induction sales arbitrary: idx t es)
  case Nil
  from Nil.prems(5) have "t' = t" by simp
  moreover from Nil.prems(1,4) have "le t t" by (rule order_laws_refl)
  ultimately show ?case using Nil.prems(4) by simp
next
  case (Cons sale rest)
  from Cons.prems(5) obtain t1 es1 where
    step: "process_sale fl cat idx sale (t, es) = Inr (t1, es1)"
    and loop: "compute_loop fl cat (Suc idx) rest (t1, es1) = Inr (t', es')"
    by (auto split: sum.splits)
  from Cons.prems(3) have q: "finite_quantity fin sale" and qs: "finite_quantities fin rest"
    by (simp_all add: finite_quantities_def)
  from step_monotone [OF Cons.prems(1,2) q Cons.prems(4) step]
  have a: "le t t1" "le (fl_zero fl) t1" by simp_all
  from Cons.IH [OF Cons.prems(1,2) qs a(2) loop]
  have b: "le t1 t'" "le (fl_zero fl) t'" by simp_all
  from Cons.prems(1) a(1) b(1) have "le t t'" by (rule order_laws_trans)
  with b(2) show ?case by simp
qed

lemma exact_order_laws: "order_laws exact_fl (\<le>) (\<lambda>x. True)"
  unfolding order_laws_def
proof (intro conjI allI impI)
  fix a b c :: rat
  assume "a \<le> b \<and> b \<le> c"
  then show "a \<le> c" by simp
next
  fix x y :: rat
  assume "True \<and> True \<and> fl_zero exact_fl \<le> x \<and> fl_zero exact_fl \<le> y"
  then show "fl_zero exact_fl \<le> fl_mul exact_fl x y"
    by (simp add: exact_fl_def)
qed (simp_all add: exact_fl_def)

lemma example_nonneg: "nonneg_prices exact_fl (\<le>) (\<lambda>x. True) example_catalogue"
  by (simp add: nonneg_prices_def example_catalogue_def exact_fl_def)

lemma example_finite_quantities:
  "finite_quantities (\<lambda>x. True)
     ([sale_of (JStr ''A'') (JInt 3)] @ [sale_of (JStr ''B'') (JInt 4)] :: rat pydict list)"
  by (simp add: finite_quantities_def finite_quantity_def sale_of_def)

lemma example_two_sales:
  "compute_sales exact_fl example_catalogue
     ([sale_of (JStr ''A'') (JInt 3)] @ [sale_of (JStr ''B'') (JInt 4)]) = Inr (40, [])"
  by code_simp

lemma example_first_sale:
  "compute_sales exact_fl example_catalogue [sale_of (JStr ''A'') (JInt 3)] = Inr (30, [])"
  by code_simp

text \<open>
  Why the prices and the float quantities must be finite: an infinite price times the quantity
  0, or any price times the quantity NaN (which is not below 0, so the record is Valid), is
  NaN, and a total that is NaN is not at least what it was.
\<close>

lemma infinite_price_loses_total:
  "compute_sales special_fl [(KStr ''A'', JFloat PInf)] [sale_of (JStr ''A'') (JInt 1)] = Inr (PInf, [])
   \<and> compute_sales special_fl [(KStr ''A'', JFloat PInf)]
        [sale_of (JStr ''A'') (JInt 1), sale_of (JStr ''A'') (JInt 0)] = Inr (NaN, [])"
  by code_simp

lemma nan_quantity_loses_total:
  "compute_sales special_fl [(KStr ''A'', JInt 10)]
        [sale_of (JStr ''A'') (JInt 1), sale_of (JStr ''A'') (JFloat NaN)] = Inr (NaN, [])"
  by code_simp

text \<open>
  Claim C2 as stated fails: with the price -5 for \<^verbatim>\<open>A\<close> and one sale of 2 units of \<^verbatim>\<open>A\<close> the
  total goes from 0.0 to -10.0.
\<close>

theorem negative_price_lowers_total:
  "compute_sales exact_fl [(KStr ''A'', JInt (- 5))] [] = Inr (0, [])
   \<and> compute_sales exact_fl [(KStr ''A'', JInt (- 5))] [sale_of (JStr ''A'') (JInt 2)] = Inr (- 10, [])
   \<and> \<not> ((0 :: rat) \<le> - 10)"
  by code_simp

text \<open>
  Claim C2, as the code has it. The claim says that the running total never decreases, for
  every catalogue. Prices are taken from the catalogue as they are, so a negative price makes a
  negative contribution, as the example above shows. What holds, for every float arithmetic
  with an order that satisfies the laws above (binary64 with \<^verbatim>\<open><=\<close> among them): when no
  price of the catalogue is a negative or non-finite number and every float quantity is
  finite, each pass of the loop body that is given a total of at least zero returns a total
  that is at least the one it was given, and the total after any prefix of the records is at
  least zero and at most the total after the whole list.
\<close>

theorem total_never_decreases_with_nonneg_prices:
  assumes "order_laws fl le fin" and "nonneg_prices fl le fin cat"
  shows "(finite_quantity fin sale \<and> le (fl_zero fl) t
          \<and> process_sale fl cat idx sale (t, es) = Inr (t', es')
          \<longrightarrow> le t t' \<and> le (fl_zero fl) t')
    \<and> (finite_quantities fin (xs @ ys) \<and> compute_sales fl cat (xs @ ys) = Inr (t2, es2) \<longrightarrow>
         (\<exists>t1 es1. compute_sales fl cat xs = Inr (t1, es1) \<and> le (fl_zero fl) t1 \<and> le t1 t2))"
proof (rule conjI; rule impI)
  assume a: "finite_quantity fin sale \<and> le (fl_zero fl) t
          \<and> process_sale fl cat idx sale (t, es) = Inr (t', es')"
  then show "le t t' \<and> le (fl_zero fl) t'"
    using step_monotone [OF assms, of sale t idx es t' es'] by simp
next
  assume run: "finite_quantities fin (xs @ ys) \<and> compute_sales fl cat (xs @ ys) = Inr (t2, es2)"
  then obtain t1 es1 where
    first: "compute_loop fl cat 1 xs (fl_zero fl, []) = Inr (t1, es1)"
    and second: "compute_loop fl cat (1 + length xs) ys (t1, es1) = Inr (t2, es2)"
    by (auto simp: compute_sales_def compute_loop_append split: sum.splits)
  from run have qx: "finite_quantities fin xs" and qy: "finite_quantities fin ys"
    by (simp_all add: finite_quantities_def)
  from assms(1) have zero: "le (fl_zero fl) (fl_zero fl)"
    by (rule order_laws_zero)
  from loop_monotone [OF assms qx zero first] have t1: "le (fl_zero fl) t1" by simp
  from loop_monotone [OF assms qy t1 second] have "le t1 t2" by simp
  with t1 first show "\<exists>t1 es1. compute_sales fl cat xs = Inr (t1, es1) \<and> le (fl_zero fl) t1 \<and> le t1 t2"
    by (auto simp: compute_sales_def)
qed

theorem total_never_decreases_with_nonneg_prices_witness:
  "order_laws exact_fl (\<le>) (\<lambda>x. True)
   \<and> nonneg_prices exact_fl (\<le>) (\<lambda>x. True) example_catalogue
   \<and> compute_sales exact_fl example_catalogue [sale_of (JStr ''A'') (JInt 3)] = Inr (30, [])
   \<and> compute_sales exact_fl example_catalogue
       ([sale_of (JStr ''A'') (JInt 3)] @ [sale_of (JStr ''B'') (JInt 4)]) = Inr (40, [])
   \<and> (\<exists>t1 es1. compute_sales exact_fl example_catalogue [sale_of (JStr ''A'') (JInt 3)] = Inr (t1, es1)
        \<and> 0 \<le> t1 \<and> t1 \<le> 40)"
proof -
  have "\<exists>t1 es1. compute_sales exact_fl example_catalogue [sale_of (JStr ''A'') (JInt 3)] = Inr (t1, es1)
        \<and> fl_zero exact_fl \<le> t1 \<and> t1 \<le> 40"
    using total_never_decreases_with_nonneg_prices
      [OF exact_order_laws example_nonneg, where xs = "[sale_of (JStr ''A'') (JInt 3)]"
        and ys = "[sale_of (JStr ''B'') (JInt 4)]" and ?t2.0 = 40 and ?es2.0 = "[]"]
      example_two_sales example_finite_quantities
    by blast
  moreover have "fl_zero exact_fl = 0" by (simp add: exact_fl_def)
  ultimately have "\<exists>t1 es1. compute_sales exact_fl example_catalogue [sale_of (JStr ''A'') (JInt 3)] = Inr (t1, es1)
        \<and> 0 \<le> t1 \<and> t1 \<le> 40"
    by simp
  with exact_order_laws example_nonneg example_first_sale example_two_sales
  show ?thesis by (intro conjI)
qed

subsection \<open>Building the catalogue\<close>

lemma key_eq_KStr_right: "key_eq fl j (KStr t) \<longleftrightarrow> j = KStr t"
  by (cases j) auto

lemma key_eq_KStr_left: "key_eq fl (KStr t) k \<longleftrightarrow> k = KStr t"
  by (cases k) auto

lemma dict_get_set_KStr:
  "dict_get fl (dict_set fl c k v) (KStr t) = (if k = KStr t then Some v else dict_get fl c (KStr t))"
  by (induction c) (auto simp: key_eq_KStr_right key_eq_KStr_left)

lemma build_loop_skip:
  "build_loop fl products c = build_loop fl (filter complete_product products) c"
proof (induction products arbitrary: c)
  case Nil
  then show ?case by simp
next
  case (Cons product rest)
  show ?case
  proof (cases "complete_product product")
    case True
    then show ?thesis
      using Cons.IH by (auto simp: complete_product_def getitem_def split: option.splits)
  next
    case False
    then show ?thesis
      using Cons.IH by (auto simp: complete_product_def)
  qed
qed

lemma build_loop_last:
  "build_loop fl products c = Inr c' \<Longrightarrow>
   dict_get fl c' (KStr t) =
     (case filter (\<lambda>p. map_of p ''title'' = Some (JStr t) \<and> map_of p ''price'' \<noteq> None) products of
        [] \<Rightarrow> dict_get fl c (KStr t)
      | p # ps \<Rightarrow> map_of (last (p # ps)) ''price'')"
proof (induction products arbitrary: c)
  case Nil
  then show ?case by simp
next
  case (Cons product rest)
  show ?case
  proof (cases "complete_product product")
    case False
    with Cons.prems have "build_loop fl rest c = Inr c'"
      by (auto simp: complete_product_def)
    from Cons.IH [OF this] False show ?thesis
      by (auto simp: complete_product_def)
  next
    case True
    then obtain title price where tp: "map_of product ''title'' = Some title"
      "map_of product ''price'' = Some price"
      by (auto simp: complete_product_def)
    with Cons.prems obtain k where k: "as_key title = Some k"
      and loop: "build_loop fl rest (dict_set fl c k price) = Inr c'"
      by (auto simp: getitem_def split: option.splits)
    have same: "k = KStr t \<longleftrightarrow> title = JStr t"
      using k by (cases title) auto
    from Cons.IH [OF loop] tp same show ?thesis
      by (auto simp: dict_get_set_KStr split: list.splits)
  qed
qed

lemma build_loop_returns:
  "list_all (\<lambda>product. complete_product product \<longrightarrow>
      (case map_of product ''title'' of None \<Rightarrow> True | Some title \<Rightarrow> as_key title \<noteq> None)) products
   \<Longrightarrow> \<exists>c'. build_loop fl products c = Inr c'"
  by (induction products arbitrary: c)
     (auto simp: complete_product_def getitem_def split: option.splits)

lemma build_returns: "\<exists>cat. build_price_catalogue fl products = Inr cat" if "hashable_titles products"
    using that build_loop_returns [of products fl "[]"]
    by (simp add: hashable_titles_def build_price_catalogue_def)

lemma build_last: "dict_get fl cat (KStr t) = last_price t products"
    if "build_price_catalogue fl products = Inr cat"
    using that build_loop_last [of fl products "[]" cat t]
    by (simp add: build_price_catalogue_def last_price_def split: list.splits)

lemma later_is_last: "last_price t products = Some price"
    if "products = earlier @ p # later" and "map_of p ''title'' = Some (JStr t)"
      and "map_of p ''price'' = Some price"
      and "list_all (\<lambda>p'. \<not> (map_of p' ''title'' = Some (JStr t) \<and> map_of p' ''price'' \<noteq> None)) later"
    for earlier p later price
  proof -
    let ?P = "\<lambda>p. map_of p ''title'' = Some (JStr t) \<and> map_of p ''price'' \<noteq> None"
    have none_later: "filter ?P later = []"
      using that(4) by (simp add: list_all_iff filter_empty_conv)
    have "?P p"
      using that(2,3) by simp
    then have all: "filter ?P (earlier @ p # later) = filter ?P earlier @ [p]"
      using none_later by simp
    have nonempty: "filter ?P (earlier @ p # later) \<noteq> []"
      unfolding all by simp
    have lastp: "last (filter ?P (earlier @ p # later)) = p"
      unfolding all by simp
    show ?thesis
      unfolding last_price_def that(1)
      using nonempty lastp that(3)
      by (cases "filter ?P (earlier @ p # later)") (simp_all del: filter_append filter.simps)
  qed

lemma example_complete:
  "filter complete_product example_products
     = [product_of ''A'' (JInt 8), product_of ''A'' (JInt 10), product_of ''B'' (JFloat (5 / 2))]"
  by code_simp

lemma example_last_price: "last_price ''A'' example_products = Some (JInt 10)"
  by code_simp

lemma example_hashable: "hashable_titles example_products"
  by code_simp

text \<open>
  Claim C5. Products that lack \<^verbatim>\<open>title\<close> or \<^verbatim>\<open>price\<close> are skipped: the builder gives the same
  result, catalogue or exception, on the list without them, and it returns a catalogue whenever
  the titles it stores under are hashable. The catalogue it returns maps a string title to the
  price of the last product, in input order, that has both fields and that title: whatever
  comes earlier, a later entry with the same title wins.
\<close>

theorem later_product_wins:
  "build_price_catalogue fl products = build_price_catalogue fl (filter complete_product products)
   \<and> (hashable_titles products \<longrightarrow> (\<exists>cat. build_price_catalogue fl products = Inr cat))
   \<and> (build_price_catalogue fl products = Inr cat \<longrightarrow>
        dict_get fl cat (KStr t) = last_price t products
        \<and> (\<forall>earlier p later price.
              products = earlier @ p # later
              \<and> map_of p ''title'' = Some (JStr t) \<and> map_of p ''price'' = Some price
              \<and> list_all (\<lambda>p'. \<not> (map_of p' ''title'' = Some (JStr t) \<and> map_of p' ''price'' \<noteq> None)) later
              \<longrightarrow> dict_get fl cat (KStr t) = Some price))"
proof (intro conjI impI allI)
  show "build_price_catalogue fl products = build_price_catalogue fl (filter complete_product products)"
    unfolding build_price_catalogue_def by (rule build_loop_skip)
next
  assume "hashable_titles products"
  then show "\<exists>cat. build_price_catalogue fl products = Inr cat"
    by (rule build_returns)
next
  assume "build_price_catalogue fl products = Inr cat"
  then show "dict_get fl cat (KStr t) = last_price t products"
    by (rule build_last)
next
  fix earlier p later price
  assume built: "build_price_catalogue fl products = Inr cat"
    and shape: "products = earlier @ p # later
      \<and> map_of p ''title'' = Some (JStr t) \<and> map_of p ''price'' = Some price
      \<and> list_all (\<lambda>p'. \<not> (map_of p' ''title'' = Some (JStr t) \<and> map_of p' ''price'' \<noteq> None)) later"
  from shape have "last_price t products = Some price"
    by (intro later_is_last [of products earlier p later t price]) (elim conjE, assumption)+
  with build_last [OF built] show "dict_get fl cat (KStr t) = Some price"
    by simp
qed

theorem later_product_wins_witness:
  "build_price_catalogue exact_fl example_products
     = build_price_catalogue exact_fl
         [product_of ''A'' (JInt 8), product_of ''A'' (JInt 10), product_of ''B'' (JFloat (5 / 2))]
   \<and> (\<exists>cat. build_price_catalogue exact_fl example_products = Inr cat)
   \<and> dict_get exact_fl example_catalogue (KStr ''A'') = Some (JInt 10)"
proof -
  from later_product_wins [of exact_fl example_products example_catalogue "''A''"]
  have "build_price_catalogue exact_fl example_products
          = build_price_catalogue exact_fl (filter complete_product example_products)"
    and "\<exists>cat. build_price_catalogue exact_fl example_products = Inr cat"
    and "dict_get exact_fl example_catalogue (KStr ''A'') = last_price ''A'' example_products"
    using example_build example_hashable by blast+
  then show ?thesis
    by (simp only: example_complete example_last_price simp_thms)
qed

subsection \<open>The report\<close>


lemma example_currency: "format_currency exact_fl 40 = ''$40.00''"
  by code_simp

lemma example_time_line: "time_line exact_fl (1 / 8) = ''Execution Time: 0.1250 seconds''"
  by code_simp



end
